theory Spec2Isabelle
  imports Complex_Main
begin

section \<open>Python values used by the alert engine\<close>

text \<open>
  The sampled readings are Python numbers: floats from the sampler (an integer on the
  platforms where the battery percentage is one), compared against the integer literals of
  the threshold table. A float is modelled by the real number it denotes (NaN and the
  infinities are not readings); Python compares an \<open>int\<close> with a \<open>float\<close> by
  their exact values, which is the order of the reals.
\<close>

datatype pynum = PyInt int | PyFloat real

fun num_val :: "pynum \<Rightarrow> real" where
  "num_val (PyInt i) = of_int i"
| "num_val (PyFloat x) = x"

definition digit_char :: "nat \<Rightarrow> char" where
  "digit_char d = char_of (48 + d)"

fun str_nat :: "nat \<Rightarrow> string" where
  "str_nat n = (if n < 10 then [digit_char n] else str_nat (n div 10) @ [digit_char (n mod 10)])"

definition str_int :: "int \<Rightarrow> string" where
  "str_int i = (if i < 0 then CHR ''-'' # str_nat (nat (- i)) else str_nat (nat i))"

text \<open>
  \<open>format(x, '')\<close> inside an f-string: the decimal digits of an \<open>int\<close>; for a
  \<open>float\<close>, Python's shortest round-trip representation, which is a function of the
  IEEE double and is taken as the parameter \<open>float_repr\<close>.
\<close>

fun py_format :: "(real \<Rightarrow> string) \<Rightarrow> pynum \<Rightarrow> string" where
  "py_format float_repr (PyInt i) = str_int i"
| "py_format float_repr (PyFloat x) = float_repr x"

text \<open>\<open>str.upper()\<close> on the ASCII letters (strings are UTF-8 byte sequences here).\<close>

definition upper_char :: "char \<Rightarrow> char" where
  "upper_char c =
     (if 97 \<le> (of_char c :: nat) \<and> (of_char c :: nat) \<le> 122
      then char_of ((of_char c :: nat) - 32) else c)"

definition upper :: "string \<Rightarrow> string" where
  "upper s = map upper_char s"

datatype py_error = KeyError string

section \<open>models.py: the Alert table\<close>

type_synonym datetime = nat

record alert =
  id' :: nat
  timestamp :: datetime
  metric_type :: string
  metric_value :: real
  threshold_value :: real
  severity :: string
  message :: string
  acknowledged :: bool

text \<open>
  The table is the list of its rows in rowid order, which is the order in which an
  unordered \<open>query(...).first()\<close> scans them. An inserted row gets the integer primary
  key one above the largest in use.
\<close>

type_synonym session = "alert list"

definition next_id :: "session \<Rightarrow> nat" where
  "next_id db = Suc (foldr max (map id' db) 0)"

section \<open>alerts.py\<close>

record thresholds =
  warning :: int
  critical :: int

definition THRESHOLDS :: "(string \<times> thresholds) list" where
  "THRESHOLDS =
     [(''cpu'', \<lparr>warning = 70, critical = 85\<rparr>),
      (''memory'', \<lparr>warning = 75, critical = 90\<rparr>),
      (''disk'', \<lparr>warning = 80, critical = 95\<rparr>),
      (''battery'', \<lparr>warning = 20, critical = 10\<rparr>)]"

definition getitem :: "(string \<times> 'v) list \<Rightarrow> string \<Rightarrow> py_error + 'v" where
  "getitem d k = (case map_of d k of None \<Rightarrow> Inl (KeyError k) | Some v \<Rightarrow> Inr v)"

subsection \<open>generate_alert_message\<close>

definition metric_names :: "(string \<times> string) list" where
  "metric_names =
     [(''cpu'', ''CPU usage''),
      (''memory'', ''Memory usage''),
      (''disk'', ''Disk usage''),
      (''battery'', ''Battery level'')]"

text \<open>The two emoji literals, as the UTF-8 bytes of the source file.\<close>

definition warning_emoji :: string where
  "warning_emoji = [CHR 0xE2, CHR 0x9A, CHR 0xA0, CHR 0xEF, CHR 0xB8, CHR 0x8F]"

definition critical_emoji :: string where
  "critical_emoji = [CHR 0xF0, CHR 0x9F, CHR 0x94, CHR 0xB4]"

definition generate_alert_message ::
  "(real \<Rightarrow> string) \<Rightarrow> string \<Rightarrow> pynum \<Rightarrow> int \<Rightarrow> string \<Rightarrow> string" where
  "generate_alert_message float_repr kind val threshold sev =
     (let metric_name = (case map_of metric_names kind of Some n \<Rightarrow> n | None \<Rightarrow> kind);
          severity_emoji = (if sev = ''warning'' then warning_emoji else critical_emoji)
      in if kind = ''battery''
         then severity_emoji @ '' '' @ upper sev @ '': '' @ metric_name @ '' is low at ''
              @ py_format float_repr val @ ''% (threshold: '' @ str_int threshold @ ''%)''
         else severity_emoji @ '' '' @ upper sev @ '': '' @ metric_name @ '' is high at ''
              @ py_format float_repr val @ ''% (threshold: '' @ str_int threshold @ ''%)'')"

subsection \<open>check_metric\<close>

text \<open>
  The three return statements of \<open>check_metric\<close>: \<open>return None\<close> when no threshold
  is crossed, \<open>return None\<close> after refreshing the existing alert, and
  \<open>return alert\<close> after inserting a new one. The model records which one was reached;
  \<open>returned\<close> is the value Python hands back.
\<close>

datatype outcome = NoChange | Updated nat | Created alert

fun returned :: "outcome \<Rightarrow> alert option" where
  "returned NoChange = None"
| "returned (Updated i) = None"
| "returned (Created a) = Some a"

text \<open>The severity and the threshold crossed (the first half of \<open>check_metric\<close>).\<close>

definition crossed :: "pynum \<Rightarrow> thresholds \<Rightarrow> bool \<Rightarrow> (string \<times> int) option" where
  "crossed val th higher_is_worse =
     (if higher_is_worse then
        (if num_val val \<ge> of_int (critical th) then Some (''critical'', critical th)
         else if num_val val \<ge> of_int (warning th) then Some (''warning'', warning th)
         else None)
      else
        (if num_val val \<le> of_int (critical th) then Some (''critical'', critical th)
         else if num_val val \<le> of_int (warning th) then Some (''warning'', warning th)
         else None))"

definition unacknowledged_match :: "string \<Rightarrow> string \<Rightarrow> alert \<Rightarrow> bool" where
  "unacknowledged_match kind sev a =
     (metric_type a = kind \<and> severity a = sev \<and> acknowledged a = False)"

definition refresh_row :: "nat \<Rightarrow> real \<Rightarrow> datetime \<Rightarrow> alert \<Rightarrow> alert" where
  "refresh_row i v now a =
     (if id' a = i then a\<lparr>metric_value := v, timestamp := now\<rparr> else a)"

definition check_metric ::
  "(real \<Rightarrow> string) \<Rightarrow> string \<Rightarrow> pynum \<Rightarrow> thresholds \<Rightarrow> bool \<Rightarrow> datetime \<Rightarrow> session
     \<Rightarrow> outcome \<times> session" where
  "check_metric float_repr kind val th higher_is_worse now db =
     (case crossed val th higher_is_worse of
        None \<Rightarrow> (NoChange, db)
      | Some (sev, threshold_crossed) \<Rightarrow>
          (case find (unacknowledged_match kind sev) db of
             Some existing_alert \<Rightarrow>
               (Updated (id' existing_alert),
                map (refresh_row (id' existing_alert) (num_val val) now) db)
           | None \<Rightarrow>
               (let msg = generate_alert_message float_repr kind val threshold_crossed sev;
                    new_alert = \<lparr>id' = next_id db, timestamp = now, metric_type = kind,
                                 metric_value = num_val val,
                                 threshold_value = of_int threshold_crossed,
                                 severity = sev, message = msg, acknowledged = False\<rparr>
                in (Created new_alert, db @ [new_alert]))))"

subsection \<open>check_and_create_alerts\<close>

record usage =
  usage_percent :: pynum

record battery_metrics =
  percent :: pynum
  is_plugged :: "bool option"

record metrics =
  cpu :: usage
  memory :: usage
  disk :: usage
  battery :: "battery_metrics option"

text \<open>
  \<open>clock k\<close> is the reading of \<open>datetime.now()\<close> taken while the metric \<open>k\<close> is
  checked. The result is the list \<open>new_alerts\<close> and the table after the call.
\<close>

definition append_new :: "alert list \<Rightarrow> outcome \<Rightarrow> alert list" where
  "append_new new_alerts r = (case returned r of Some a \<Rightarrow> new_alerts @ [a] | None \<Rightarrow> new_alerts)"

definition check_and_create_alerts ::
  "(real \<Rightarrow> string) \<Rightarrow> metrics \<Rightarrow> (string \<Rightarrow> datetime) \<Rightarrow> session
     \<Rightarrow> py_error + (alert list \<times> session)" where
  "check_and_create_alerts float_repr m clock db =
     (case getitem THRESHOLDS ''cpu'' of Inl e \<Rightarrow> Inl e | Inr cpu_th \<Rightarrow>
      let (cpu_alert, db1) =
            check_metric float_repr ''cpu'' (usage_percent (cpu m)) cpu_th True (clock ''cpu'') db;
          new1 = append_new [] cpu_alert
      in
     (case getitem THRESHOLDS ''memory'' of Inl e \<Rightarrow> Inl e | Inr memory_th \<Rightarrow>
      let (memory_alert, db2) =
            check_metric float_repr ''memory'' (usage_percent (memory m)) memory_th True
              (clock ''memory'') db1;
          new2 = append_new new1 memory_alert
      in
     (case getitem THRESHOLDS ''disk'' of Inl e \<Rightarrow> Inl e | Inr disk_th \<Rightarrow>
      let (disk_alert, db3) =
            check_metric float_repr ''disk'' (usage_percent (disk m)) disk_th True
              (clock ''disk'') db2;
          new3 = append_new new2 disk_alert
      in
     (case battery m of
        None \<Rightarrow> Inr (new3, db3)
      | Some b \<Rightarrow>
          if is_plugged b \<noteq> Some True then
            (case getitem THRESHOLDS ''battery'' of Inl e \<Rightarrow> Inl e | Inr battery_th \<Rightarrow>
             let (battery_alert, db4) =
                   check_metric float_repr ''battery'' (percent b) battery_th False
                     (clock ''battery'') db3
             in Inr (append_new new3 battery_alert, db4))
          else Inr (new3, db3)))))"

subsection \<open>acknowledge_alert\<close>

definition acknowledge_alert :: "nat \<Rightarrow> session \<Rightarrow> bool \<times> session" where
  "acknowledge_alert alert_id db =
     (case find (\<lambda>a. id' a = alert_id) db of
        Some a \<Rightarrow>
          (True, map (\<lambda>r. if id' r = id' a then r\<lparr>acknowledged := True\<rparr> else r) db)
      | None \<Rightarrow> (False, db))"

section \<open>scheduler.py\<close>

text \<open>
  An exception is an instance of \<open>Exception\<close> (an error) or of \<open>BaseException\<close>
  only; \<open>except Exception\<close> catches the former.
\<close>

datatype exn = Error string | BaseExceptionOnly string

fun is_Exception :: "exn \<Rightarrow> bool" where
  "is_Exception (Error s) = True"
| "is_Exception (BaseExceptionOnly s) = False"

text \<open>
  What a tick does to the outside, in order: the session calls and the lines printed. The
  snapshot row is the sampled record; the line printed on success carries the number of
  new alerts.
\<close>

datatype event =
    SessionOpened
  | Added
  | Committed
  | RolledBack
  | SessionClosed
  | PrintedSaved nat
  | PrintedError exn

record world =
  snapshots :: "metrics list"
  alerts :: "alert list"
  pending :: "metrics list"
  trace :: "event list"

text \<open>
  The steps of a tick that may raise, as the environment decides them: the sampler
  returns a record or raises (\<open>Inl\<close> stands for any raise before \<open>db.add\<close>,
  building the snapshot row included); the commit of the snapshot raises or not; the alert
  evaluation raises or not, and when it does the alerts table is left as the checks that
  completed before the failure committed it (\<open>partial\<close>). Opening the session,
  \<open>rollback\<close>, \<open>close\<close> and \<open>print\<close> do not raise.
\<close>

record tick_env =
  sampled :: "exn + metrics"
  snapshot_commit_fault :: "exn option"
  evaluation_fault :: "(exn \<times> alert list) option"
  clock_of :: "string \<Rightarrow> datetime"

definition SessionLocal :: "world \<Rightarrow> world" where
  "SessionLocal w = w\<lparr>pending := [], trace := trace w @ [SessionOpened]\<rparr>"

definition db_add :: "metrics \<Rightarrow> world \<Rightarrow> world" where
  "db_add snapshot w = w\<lparr>pending := pending w @ [snapshot], trace := trace w @ [Added]\<rparr>"

definition db_commit :: "exn option \<Rightarrow> world \<Rightarrow> exn option \<times> world" where
  "db_commit fault w =
     (case fault of
        Some e \<Rightarrow> (Some e, w)
      | None \<Rightarrow>
          (None, w\<lparr>snapshots := snapshots w @ pending w, pending := [],
                    trace := trace w @ [Committed]\<rparr>))"

definition db_rollback :: "world \<Rightarrow> world" where
  "db_rollback w = w\<lparr>pending := [], trace := trace w @ [RolledBack]\<rparr>"

definition db_close :: "world \<Rightarrow> world" where
  "db_close w = w\<lparr>pending := [], trace := trace w @ [SessionClosed]\<rparr>"

definition print_line :: "event \<Rightarrow> world \<Rightarrow> world" where
  "print_line ev w = w\<lparr>trace := trace w @ [ev]\<rparr>"

text \<open>The body of the \<open>try\<close> block: \<open>Some e\<close> when it raises \<open>e\<close>.\<close>

definition try_block :: "(real \<Rightarrow> string) \<Rightarrow> tick_env \<Rightarrow> world \<Rightarrow> exn option \<times> world" where
  "try_block float_repr env w =
     (case sampled env of
        Inl e \<Rightarrow> (Some e, w)
      | Inr m \<Rightarrow>
          (case db_commit (snapshot_commit_fault env) (db_add m w) of
             (Some e, w1) \<Rightarrow> (Some e, w1)
           | (None, w1) \<Rightarrow>
               (case evaluation_fault env of
                  Some (e, partial) \<Rightarrow> (Some e, w1\<lparr>alerts := partial\<rparr>)
                | None \<Rightarrow>
                    (case check_and_create_alerts float_repr m (clock_of env) (alerts w1) of
                       Inl (KeyError k) \<Rightarrow> (Some (Error k), w1)
                     | Inr (new_alerts, db') \<Rightarrow>
                         (None, print_line (PrintedSaved (length new_alerts))
                                  (w1\<lparr>alerts := db'\<rparr>))))))"

text \<open>
  \<open>try ... except Exception as e ... finally\<close>: the result is the exception that
  leaves the function, if any.
\<close>

definition collect_and_save_metrics ::
  "(real \<Rightarrow> string) \<Rightarrow> tick_env \<Rightarrow> world \<Rightarrow> exn option \<times> world" where
  "collect_and_save_metrics float_repr env w =
     (let (raised, w1) = try_block float_repr env (SessionLocal w);
          (escaping, w2) =
            (case raised of
               None \<Rightarrow> (None, w1)
             | Some e \<Rightarrow>
                 if is_Exception e then (None, db_rollback (print_line (PrintedError e) w1))
                 else (Some e, w1))
      in (escaping, db_close w2))"

text \<open>
  The interval job, fired once per element of the list. The run ends at the first
  exception that leaves a job; the second component counts the jobs that were started.
\<close>

fun run_job :: "(real \<Rightarrow> string) \<Rightarrow> tick_env list \<Rightarrow> world \<Rightarrow> nat \<Rightarrow> exn option \<times> world \<times> nat" where
  "run_job float_repr [] w n = (None, w, n)"
| "run_job float_repr (env # envs) w n =
     (case collect_and_save_metrics float_repr env w of
        (Some e, w') \<Rightarrow> (Some e, w', Suc n)
      | (None, w') \<Rightarrow> run_job float_repr envs w' (Suc n))"

section \<open>Vocabulary of the properties\<close>

text \<open>The row with a given primary key.\<close>

definition row_by_id :: "nat \<Rightarrow> session \<Rightarrow> alert option" where
  "row_by_id i db = find (\<lambda>a. id' a = i) db"

text \<open>The severity an outcome carries: none, that of the new alert, that of the row refreshed.\<close>

fun outcome_severity :: "session \<Rightarrow> outcome \<Rightarrow> string option" where
  "outcome_severity db NoChange = None"
| "outcome_severity db (Created a) = Some (severity a)"
| "outcome_severity db (Updated i) = map_option severity (row_by_id i db)"

text \<open>The live (unacknowledged) alerts of a kind, and of a kind and severity.\<close>

definition live_of_kind :: "string \<Rightarrow> session \<Rightarrow> alert list" where
  "live_of_kind kind db = filter (\<lambda>a. metric_type a = kind \<and> acknowledged a = False) db"

definition live :: "string \<Rightarrow> string \<Rightarrow> session \<Rightarrow> alert list" where
  "live kind sev db = filter (unacknowledged_match kind sev) db"

text \<open>Feeding a sequence of readings of one metric, each with the time of its check.\<close>

fun feed ::
  "(real \<Rightarrow> string) \<Rightarrow> string \<Rightarrow> thresholds \<Rightarrow> bool \<Rightarrow> (pynum \<times> datetime) list \<Rightarrow> session
     \<Rightarrow> outcome list \<times> session" where
  "feed float_repr kind th higher_is_worse [] db = ([], db)"
| "feed float_repr kind th higher_is_worse ((v, now) # rest) db =
     (let (r, db1) = check_metric float_repr kind v th higher_is_worse now db;
          (rs, db2) = feed float_repr kind th higher_is_worse rest db1
      in (r # rs, db2))"

text \<open>Sequences of evaluations and acknowledgments, run from a given table.\<close>

datatype operation = Evaluate metrics "string \<Rightarrow> datetime" | Acknowledge nat

fun apply_operation :: "(real \<Rightarrow> string) \<Rightarrow> operation \<Rightarrow> session \<Rightarrow> session" where
  "apply_operation float_repr (Evaluate m clock) db =
     (case check_and_create_alerts float_repr m clock db of
        Inl e \<Rightarrow> db
      | Inr (new_alerts, db') \<Rightarrow> db')"
| "apply_operation float_repr (Acknowledge i) db = snd (acknowledge_alert i db)"

fun run :: "(real \<Rightarrow> string) \<Rightarrow> operation list \<Rightarrow> session \<Rightarrow> session" where
  "run float_repr [] db = db"
| "run float_repr (x # xs) db = run float_repr xs (apply_operation float_repr x db)"

text \<open>Two rows that agree on every column but \<open>metric_value\<close> and \<open>timestamp\<close>.\<close>

definition same_but_sample :: "alert \<Rightarrow> alert \<Rightarrow> bool" where
  "same_but_sample a b =
     (id' a = id' b \<and> metric_type a = metric_type b \<and> severity a = severity b \<and>
      threshold_value a = threshold_value b \<and> acknowledged a = acknowledged b \<and>
      message a = message b)"

text \<open>
  The exception raised by the first step of a tick that fails, if one does; and the ticks
  whose failing step raises an error (an instance of \<open>Exception\<close>).
\<close>

definition fault_of :: "tick_env \<Rightarrow> exn option" where
  "fault_of env =
     (case sampled env of
        Inl e \<Rightarrow> Some e
      | Inr m \<Rightarrow>
          (case snapshot_commit_fault env of
             Some e \<Rightarrow> Some e
           | None \<Rightarrow> map_option fst (evaluation_fault env)))"

definition errors_only :: "tick_env \<Rightarrow> bool" where
  "errors_only env = (case fault_of env of Some e \<Rightarrow> is_Exception e | None \<Rightarrow> True)"

text \<open>The row a fresh insertion writes.\<close>

definition new_row ::
  "(real \<Rightarrow> string) \<Rightarrow> string \<Rightarrow> pynum \<Rightarrow> int \<Rightarrow> string \<Rightarrow> datetime \<Rightarrow> session \<Rightarrow> alert" where
  "new_row float_repr kind val t sev now db =
     \<lparr>id' = next_id db, timestamp = now, metric_type = kind, metric_value = num_val val,
      threshold_value = of_int t, severity = sev,
      message = generate_alert_message float_repr kind val t sev, acknowledged = False\<rparr>"

text \<open>
  Every row of the first table is still in the second, at its place, with every column but
  \<open>metric_value\<close> and \<open>timestamp\<close> as it was.
\<close>

definition kept :: "session \<Rightarrow> session \<Rightarrow> bool" where
  "kept db db' = (length db \<le> length db' \<and> list_all2 same_but_sample db (take (length db) db'))"

section \<open>The three paths of check_metric\<close>

lemma new_row_simps [simp]:
  "id' (new_row fr k v t s now db) = next_id db"
  "timestamp (new_row fr k v t s now db) = now"
  "metric_type (new_row fr k v t s now db) = k"
  "metric_value (new_row fr k v t s now db) = num_val v"
  "threshold_value (new_row fr k v t s now db) = of_int t"
  "severity (new_row fr k v t s now db) = s"
  "message (new_row fr k v t s now db) = generate_alert_message fr k v t s"
  "acknowledged (new_row fr k v t s now db) = False"
  by (simp_all add: new_row_def)

lemma check_metric_no_crossing:
  "crossed val th hiw = None \<Longrightarrow> check_metric fr kind val th hiw now db = (NoChange, db)"
  by (simp add: check_metric_def)

lemma check_metric_existing:
  "crossed val th hiw = Some (sev, t) \<Longrightarrow> find (unacknowledged_match kind sev) db = Some e \<Longrightarrow>
   check_metric fr kind val th hiw now db =
     (Updated (id' e), map (refresh_row (id' e) (num_val val) now) db)"
  by (simp add: check_metric_def)

lemma check_metric_fresh:
  "crossed val th hiw = Some (sev, t) \<Longrightarrow> find (unacknowledged_match kind sev) db = None \<Longrightarrow>
   check_metric fr kind val th hiw now db =
     (Created (new_row fr kind val t sev now db), db @ [new_row fr kind val t sev now db])"
  by (simp add: check_metric_def Let_def new_row_def)

lemma find_Some_holds: "find P xs = Some a \<Longrightarrow> P a \<and> a \<in> set xs"
  by (auto simp: find_Some_iff)

lemma row_by_id_of_found:
  "distinct (map id' db) \<Longrightarrow> find P db = Some a \<Longrightarrow> row_by_id (id' a) db = Some a"
proof (induction db)
  case Nil
  then show ?case by simp
next
  case (Cons r db)
  show ?case
  proof (cases "P r")
    case True
    with Cons.prems show ?thesis by (simp add: row_by_id_def)
  next
    case False
    with Cons.prems have f: "find P db = Some a" and d: "distinct (map id' db)"
      and nr: "id' r \<notin> id' ` set db" by auto
    from find_Some_holds[OF f] have "a \<in> set db" by simp
    with nr have "id' r \<noteq> id' a" by auto
    with Cons.IH[OF d f] show ?thesis by (simp add: row_by_id_def)
  qed
qed

lemma outcome_severity_check_metric:
  assumes "distinct (map id' db)"
  shows "outcome_severity db (fst (check_metric fr kind val th hiw now db)) =
           map_option fst (crossed val th hiw)"
proof (cases "crossed val th hiw")
  case None
  then show ?thesis by (simp add: check_metric_no_crossing)
next
  case (Some p)
  obtain sev t where p: "p = (sev, t)" by (cases p)
  show ?thesis
  proof (cases "find (unacknowledged_match kind sev) db")
    case None
    with Some p show ?thesis by (simp add: check_metric_fresh)
  next
    case (Some e)
    from find_Some_holds[OF Some] have "severity e = sev"
      by (simp add: unacknowledged_match_def)
    with Some \<open>crossed val th hiw = Some p\<close> p row_by_id_of_found[OF assms Some]
    show ?thesis by (simp add: check_metric_existing)
  qed
qed

section \<open>Severity classification\<close>

lemma NoChange_iff_no_crossing:
  "fst (check_metric fr kind val th hiw now db) = NoChange \<longleftrightarrow> crossed val th hiw = None"
  by (simp add: check_metric_def Let_def split: option.splits prod.splits)

lemma crossed_higher:
  "warning th \<le> critical th \<Longrightarrow>
   crossed val th True =
     (if num_val val < of_int (warning th) then None
      else if num_val val < of_int (critical th) then Some (''warning'', warning th)
      else Some (''critical'', critical th))"
  by (auto simp: crossed_def dest: order_trans)

lemma crossed_lower:
  "crossed val th False =
     (if num_val val \<le> of_int (critical th) then Some (''critical'', critical th)
      else if num_val val \<le> of_int (warning th) then Some (''warning'', warning th)
      else None)"
  by (simp add: crossed_def)

lemma THRESHOLDS_cases:
  "(k, th) \<in> set THRESHOLDS \<Longrightarrow>
     (k = ''cpu'' \<and> th = \<lparr>warning = 70, critical = 85\<rparr>) \<or>
     (k = ''memory'' \<and> th = \<lparr>warning = 75, critical = 90\<rparr>) \<or>
     (k = ''disk'' \<and> th = \<lparr>warning = 80, critical = 95\<rparr>) \<or>
     (k = ''battery'' \<and> th = \<lparr>warning = 20, critical = 10\<rparr>)"
  by (auto simp: THRESHOLDS_def)

text \<open>
  C2. Against the threshold table, a higher-is-worse kind (cpu, memory, disk) yields
  NoChange below the warning level, a warning-severity outcome from the warning level up to
  (not including) the critical level, and a critical-severity outcome from the critical
  level on; battery yields critical at or below its critical level, otherwise warning at
  or below its warning level, otherwise NoChange. The outcome carries one severity: a
  value satisfying both thresholds is critical.
\<close>

theorem severity_classification:
  assumes "distinct (map id' db)" and "(k, th) \<in> set THRESHOLDS"
  shows "(if k \<noteq> ''battery'' then
            (let r = fst (check_metric fr k v th True now db) in
               if num_val v < of_int (warning th) then r = NoChange
               else if num_val v < of_int (critical th) then outcome_severity db r = Some ''warning''
               else outcome_severity db r = Some ''critical'')
          else
            (let r = fst (check_metric fr k v th False now db) in
               if num_val v \<le> of_int (critical th) then outcome_severity db r = Some ''critical''
               else if num_val v \<le> of_int (warning th) then outcome_severity db r = Some ''warning''
               else r = NoChange))"
proof (cases "k = ''battery''")
  case True
  then show ?thesis
    by (simp add: Let_def outcome_severity_check_metric[OF assms(1)] NoChange_iff_no_crossing
        crossed_lower)
next
  case False
  with THRESHOLDS_cases[OF assms(2)] have "warning th \<le> critical th" by auto
  with False show ?thesis
    by (simp add: Let_def outcome_severity_check_metric[OF assms(1)] NoChange_iff_no_crossing
        crossed_higher)
qed

theorem severity_classification_witness:
  "distinct (map id' []) \<and> (''battery'', \<lparr>warning = 20, critical = 10\<rparr>) \<in> set THRESHOLDS \<and>
   outcome_severity []
     (fst (check_metric (\<lambda>x. ''20.0'') ''battery'' (PyFloat 20) \<lparr>warning = 20, critical = 10\<rparr>
        False 0 [])) = Some ''warning''"
  using severity_classification[where db = "[]" and k = "''battery''"
      and th = "\<lparr>warning = 20, critical = 10\<rparr>" and v = "PyFloat 20"
      and fr = "\<lambda>x. ''20.0''" and now = 0]
  by (simp add: THRESHOLDS_def)

section \<open>Facts about the table operations\<close>

lemma find_as_filter: "find P xs = (case filter P xs of [] \<Rightarrow> None | x # _ \<Rightarrow> Some x)"
  by (induction xs) auto

lemma find_None_live: "live k s db = [] \<Longrightarrow> find (unacknowledged_match k s) db = None"
  by (simp add: find_as_filter live_def)

lemma find_hd_live: "live k s db \<noteq> [] \<Longrightarrow> find (unacknowledged_match k s) db = Some (hd (live k s db))"
  by (cases "live k s db") (simp_all add: find_as_filter live_def)

lemma ids_le_foldr_max: "a \<in> set db \<Longrightarrow> id' a \<le> foldr max (map id' db) 0"
  by (induction db) auto

lemma next_id_fresh: "a \<in> set db \<Longrightarrow> id' a \<noteq> next_id db"
  using ids_le_foldr_max[of a db] by (simp add: next_id_def)

lemma next_id_notin: "next_id db \<notin> id' ` set db"
  using next_id_fresh by fastforce

lemma map_id_refresh: "map id' (map (refresh_row i v now) db) = map id' db"
  by (induction db) (simp_all add: refresh_row_def)

lemma refresh_other_rows: "\<forall>a \<in> set db. id' a \<noteq> i \<Longrightarrow> map (refresh_row i v now) db = db"
  by (induction db) (simp_all add: refresh_row_def)

lemma row_by_id_refresh:
  "distinct (map id' db) \<Longrightarrow> row_by_id i db = Some e \<Longrightarrow>
   row_by_id i (map (refresh_row i v now) db) = Some (e\<lparr>metric_value := v, timestamp := now\<rparr>)"
  by (induction db) (auto simp: row_by_id_def refresh_row_def)

lemma row_by_id_refresh_other:
  "j \<noteq> i \<Longrightarrow> row_by_id j (map (refresh_row i v now) db) = row_by_id j db"
  by (induction db) (auto simp: row_by_id_def refresh_row_def)

lemma list_all2_refresh:
  "list_all2 (\<lambda>a b. same_but_sample a b \<and> (id' a \<noteq> i \<longrightarrow> b = a) \<and>
                   (id' a = i \<longrightarrow> metric_value b = v \<and> timestamp b = now))
     db (map (refresh_row i v now) db)"
  by (induction db) (simp_all add: refresh_row_def same_but_sample_def)

section \<open>Case analysis of a check, and what an evaluation keeps\<close>

lemma check_metric_cases:
  obtains (none) "crossed v th hiw = None" "check_metric fr k v th hiw now db = (NoChange, db)"
  | (existing) s t e where "crossed v th hiw = Some (s, t)"
      "find (unacknowledged_match k s) db = Some e"
      "check_metric fr k v th hiw now db =
         (Updated (id' e), map (refresh_row (id' e) (num_val v) now) db)"
  | (fresh) s t where "crossed v th hiw = Some (s, t)"
      "find (unacknowledged_match k s) db = None"
      "check_metric fr k v th hiw now db =
         (Created (new_row fr k v t s now db), db @ [new_row fr k v t s now db])"
proof (cases "crossed v th hiw")
  case None
  then show ?thesis using none by (simp add: check_metric_no_crossing)
next
  case (Some p)
  obtain s t where p: "p = (s, t)" by (cases p)
  show ?thesis
  proof (cases "find (unacknowledged_match k s) db")
    case None
    with Some p show ?thesis using fresh[of s t] by (simp add: check_metric_fresh)
  next
    case (Some e)
    with \<open>crossed v th hiw = Some p\<close> p show ?thesis
      using existing[of s t e] by (simp add: check_metric_existing)
  qed
qed

lemma list_all2_same_refl: "list_all2 same_but_sample db db"
  by (simp add: list_all2_same same_but_sample_def)



lemma getitem_THRESHOLDS:
  "getitem THRESHOLDS ''cpu'' = Inr \<lparr>warning = 70, critical = 85\<rparr>"
  "getitem THRESHOLDS ''memory'' = Inr \<lparr>warning = 75, critical = 90\<rparr>"
  "getitem THRESHOLDS ''disk'' = Inr \<lparr>warning = 80, critical = 95\<rparr>"
  "getitem THRESHOLDS ''battery'' = Inr \<lparr>warning = 20, critical = 10\<rparr>"
  by (simp_all add: getitem_def THRESHOLDS_def)

lemma check_and_create_alerts_unfold:
  "check_and_create_alerts fr m clock db =
     (let r1 = check_metric fr ''cpu'' (usage_percent (cpu m)) \<lparr>warning = 70, critical = 85\<rparr>
                 True (clock ''cpu'') db;
          r2 = check_metric fr ''memory'' (usage_percent (memory m))
                 \<lparr>warning = 75, critical = 90\<rparr> True (clock ''memory'') (snd r1);
          r3 = check_metric fr ''disk'' (usage_percent (disk m)) \<lparr>warning = 80, critical = 95\<rparr>
                 True (clock ''disk'') (snd r2);
          new3 = append_new (append_new (append_new [] (fst r1)) (fst r2)) (fst r3)
      in case battery m of
           None \<Rightarrow> Inr (new3, snd r3)
         | Some b \<Rightarrow>
             if is_plugged b \<noteq> Some True then
               (let r4 = check_metric fr ''battery'' (percent b) \<lparr>warning = 20, critical = 10\<rparr>
                           False (clock ''battery'') (snd r3)
                in Inr (append_new new3 (fst r4), snd r4))
             else Inr (new3, snd r3))"
  by (simp add: check_and_create_alerts_def getitem_THRESHOLDS Let_def
      split: prod.splits option.splits)

text \<open>
  A transitive relation that every check respects holds across a whole evaluation, which
  never fails on a key of the threshold table.
\<close>

lemma check_and_create_alerts_steps:
  assumes step: "\<And>k v th hiw now d. R d (snd (check_metric fr k v th hiw now d))"
    and trans: "\<And>a b c. R a b \<Longrightarrow> R b c \<Longrightarrow> R a c"
  shows "\<exists>new db'. check_and_create_alerts fr m clock db = Inr (new, db') \<and> R db db'"
proof -
  define r1 where "r1 = check_metric fr ''cpu'' (usage_percent (cpu m)) \<lparr>warning = 70, critical = 85\<rparr>
                 True (clock ''cpu'') db"
  define r2 where "r2 = check_metric fr ''memory'' (usage_percent (memory m))
                 \<lparr>warning = 75, critical = 90\<rparr> True (clock ''memory'') (snd r1)"
  define r3 where "r3 = check_metric fr ''disk'' (usage_percent (disk m)) \<lparr>warning = 80, critical = 95\<rparr>
                 True (clock ''disk'') (snd r2)"
  have 1: "R db (snd r1)" unfolding r1_def by (rule step)
  have 2: "R (snd r1) (snd r2)" unfolding r2_def by (rule step)
  have 3: "R (snd r2) (snd r3)" unfolding r3_def by (rule step)
  have 13: "R db (snd r3)" using 1 2 3 trans by blast
  show ?thesis
  proof (cases "battery m")
    case None
    with 13 show ?thesis
      by (simp add: check_and_create_alerts_unfold Let_def r1_def r2_def r3_def)
  next
    case (Some b)
    define r4 where "r4 = check_metric fr ''battery'' (percent b) \<lparr>warning = 20, critical = 10\<rparr>
                           False (clock ''battery'') (snd r3)"
    have "R (snd r3) (snd r4)" unfolding r4_def by (rule step)
    with 13 have 14: "R db (snd r4)" using trans by blast
    from Some 13 14 show ?thesis
      by (simp add: check_and_create_alerts_unfold Let_def r1_def r2_def r3_def r4_def)
  qed
qed

lemma same_but_sample_trans:
  "same_but_sample a b \<Longrightarrow> same_but_sample b c \<Longrightarrow> same_but_sample a c"
  by (simp add: same_but_sample_def)


lemma kept_trans: "kept a b \<Longrightarrow> kept b c \<Longrightarrow> kept a c"
proof -
  assume ab: "kept a b" and bc: "kept b c"
  then have len: "length a \<le> length b" "length b \<le> length c" by (simp_all add: kept_def)
  from bc have "list_all2 same_but_sample b (take (length b) c)" by (simp add: kept_def)
  then have "list_all2 same_but_sample (take (length a) b) (take (length a) (take (length b) c))"
    by (rule list_all2_takeI)
  with len have bc': "list_all2 same_but_sample (take (length a) b) (take (length a) c)"
    by (simp add: min_def)
  from ab have ab': "list_all2 same_but_sample a (take (length a) b)" by (simp add: kept_def)
  have "list_all2 same_but_sample a (take (length a) c)"
    by (rule list_all2_trans[OF _ ab' bc']) (rule same_but_sample_trans)
  with len show ?thesis by (simp add: kept_def)
qed

lemma kept_check_metric: "kept d (snd (check_metric fr k v th hiw now d))"
proof (cases rule: check_metric_cases[of v th hiw fr k now d])
  case none
  then show ?thesis by (simp add: kept_def list_all2_same_refl)
next
  case (existing s t e)
  have "list_all2 same_but_sample d (map (refresh_row (id' e) (num_val v) now) d)"
    using list_all2_refresh[of "id' e" "num_val v" now d] by (rule list_all2_mono) simp
  with existing(3) show ?thesis by (simp add: kept_def)
next
  case (fresh s t)
  then show ?thesis by (simp add: kept_def list_all2_same_refl)
qed

lemma kept_refl: "kept d d"
  by (simp add: kept_def list_all2_same_refl)

lemma kept_check_and_create_alerts:
  "\<exists>new db'. check_and_create_alerts fr m clock db = Inr (new, db') \<and> kept db db'"
proof (rule check_and_create_alerts_steps[where R = kept])
  fix k v th hiw now d
  show "kept d (snd (check_metric fr k v th hiw now d))" by (rule kept_check_metric)
next
  fix a b c
  assume "kept a b" "kept b c"
  then show "kept a c" by (rule kept_trans)
qed

section \<open>Side effects of an evaluation\<close>

text \<open>
  C7. A check whose outcome is NoChange leaves the table as it was; Created appends exactly
  the new row, under a fresh key; Updated rewrites \<open>metric_value\<close> and
  \<open>timestamp\<close> of the row it names. No check and no evaluation of a whole record
  deletes a row: every row is kept at its place, with its other columns unchanged.
\<close>

theorem side_effect_discipline:
  "(case check_metric fr k v th hiw now db of
      (NoChange, db') \<Rightarrow> db' = db
    | (Created a, db') \<Rightarrow> db' = db @ [a] \<and> id' a \<notin> id' ` set db
    | (Updated i, db') \<Rightarrow>
        i \<in> id' ` set db \<and> db' = map (refresh_row i (num_val v) now) db \<and>
        (\<exists>b. b \<in> set db' \<and> id' b = i \<and> metric_value b = num_val v \<and> timestamp b = now))
   \<and> kept db (snd (check_metric fr k v th hiw now db))
   \<and> (\<exists>new db'. check_and_create_alerts fr m clock db = Inr (new, db') \<and> kept db db')"
proof (cases rule: check_metric_cases[of v th hiw fr k now db])
  case none
  then show ?thesis using kept_check_and_create_alerts[of fr m clock db] by (simp add: kept_refl)
next
  case (existing s t e)
  from find_Some_holds[OF existing(2)] have e: "e \<in> set db" by simp
  then have "refresh_row (id' e) (num_val v) now e \<in> set (map (refresh_row (id' e) (num_val v) now) db)"
    by simp
  then have "\<exists>b. b \<in> set (map (refresh_row (id' e) (num_val v) now) db) \<and> id' b = id' e \<and>
      metric_value b = num_val v \<and> timestamp b = now"
    by (intro exI[of _ "refresh_row (id' e) (num_val v) now e"]) (simp add: refresh_row_def)
  moreover have "kept db (snd (check_metric fr k v th hiw now db))" by (rule kept_check_metric)
  ultimately show ?thesis
    using existing(3) e kept_check_and_create_alerts[of fr m clock db] by simp
next
  case (fresh s t)
  moreover have "kept db (snd (check_metric fr k v th hiw now db))" by (rule kept_check_metric)
  ultimately show ?thesis
    using kept_check_and_create_alerts[of fr m clock db] by (simp add: next_id_notin)
qed

theorem side_effect_discipline_witness:
  "check_metric (\<lambda>x. []) ''cpu'' (PyInt 60) \<lparr>warning = 70, critical = 85\<rparr> True 9
     [\<lparr>id' = 1, timestamp = 3, metric_type = ''cpu'', metric_value = 72,
       threshold_value = 70, severity = ''warning'', message = ''m'', acknowledged = False\<rparr>] =
     (NoChange,
      [\<lparr>id' = 1, timestamp = 3, metric_type = ''cpu'', metric_value = 72,
        threshold_value = 70, severity = ''warning'', message = ''m'', acknowledged = False\<rparr>]) \<and>
   kept
     [\<lparr>id' = 1, timestamp = 3, metric_type = ''cpu'', metric_value = 72,
       threshold_value = 70, severity = ''warning'', message = ''m'', acknowledged = False\<rparr>]
     (snd (check_metric (\<lambda>x. []) ''cpu'' (PyInt 60) \<lparr>warning = 70, critical = 85\<rparr> True 9
        [\<lparr>id' = 1, timestamp = 3, metric_type = ''cpu'', metric_value = 72,
          threshold_value = 70, severity = ''warning'', message = ''m'', acknowledged = False\<rparr>]))"
proof -
  let ?r = "\<lparr>id' = 1, timestamp = 3, metric_type = ''cpu'', metric_value = 72,
       threshold_value = 70, severity = ''warning'', message = ''m'', acknowledged = False\<rparr>"
  let ?th = "\<lparr>warning = 70, critical = 85\<rparr>"
  have n: "fst (check_metric (\<lambda>x. []) ''cpu'' (PyInt 60) ?th True 9 [?r]) = NoChange"
    by (simp add: check_metric_def crossed_def)
  note inst = side_effect_discipline[where fr = "\<lambda>x. []" and k = "''cpu''" and v = "PyInt 60"
      and th = "?th" and hiw = True and now = 9 and db = "[?r]"]
  from inst n have "snd (check_metric (\<lambda>x. []) ''cpu'' (PyInt 60) ?th True 9 [?r]) = [?r]"
    by (cases "check_metric (\<lambda>x. []) ''cpu'' (PyInt 60) ?th True 9 [?r]") auto
  with n have "check_metric (\<lambda>x. []) ''cpu'' (PyInt 60) ?th True 9 [?r] = (NoChange, [?r])"
    by (cases "check_metric (\<lambda>x. []) ''cpu'' (PyInt 60) ?th True 9 [?r]") simp
  with inst show ?thesis by blast
qed

section \<open>Created, then refreshed; acknowledgment\<close>

lemma live_append: "live k s (db @ xs) = live k s db @ live k s xs"
  by (simp add: live_def)

lemma live_new_row: "live k s [new_row fr k v t s now db] = [new_row fr k v t s now db]"
  by (simp add: live_def unacknowledged_match_def)

lemma created_then_updated:
  assumes none: "live k s db = []" and c1: "crossed v1 th hiw = Some (s, t)"
    and c2: "crossed v2 th hiw = Some (s, t2)"
  shows "check_metric fr k v1 th hiw now1 db =
           (Created (new_row fr k v1 t s now1 db), db @ [new_row fr k v1 t s now1 db])"
    and "check_metric fr k v2 th hiw now2 (db @ [new_row fr k v1 t s now1 db]) =
           (Updated (next_id db),
            db @ [(new_row fr k v1 t s now1 db)\<lparr>metric_value := num_val v2, timestamp := now2\<rparr>])"
proof -
  let ?a = "new_row fr k v1 t s now1 db"
  show "check_metric fr k v1 th hiw now1 db = (Created ?a, db @ [?a])"
    by (rule check_metric_fresh[OF c1 find_None_live[OF none]])
  have "live k s (db @ [?a]) = [?a]" using none by (simp add: live_append live_new_row)
  then have f: "find (unacknowledged_match k s) (db @ [?a]) = Some ?a"
    by (simp add: find_as_filter live_def)
  have "\<forall>r \<in> set db. id' r \<noteq> id' ?a" using next_id_fresh by auto
  then have "map (refresh_row (id' ?a) (num_val v2) now2) db = db" by (rule refresh_other_rows)
  then show "check_metric fr k v2 th hiw now2 (db @ [?a]) =
           (Updated (next_id db), db @ [?a\<lparr>metric_value := num_val v2, timestamp := now2\<rparr>])"
    using check_metric_existing[OF c2 f, of fr now2] by (simp add: refresh_row_def)
qed

lemma find_append_list:
  "find P (xs @ ys) = (case find P xs of None \<Rightarrow> find P ys | Some x \<Rightarrow> Some x)"
  by (induction xs) simp_all

lemma row_by_id_append_new:
  "row_by_id (next_id db) (db @ [a]) = (if id' a = next_id db then Some a else None)"
proof -
  have "find (\<lambda>r. id' r = next_id db) db = None"
    using next_id_fresh by (auto simp: find_None_iff)
  then show ?thesis by (simp add: row_by_id_def find_append_list)
qed

lemma live_member: "live k s db = [e] \<Longrightarrow> e \<in> set db \<and> unacknowledged_match k s e"
proof -
  assume "live k s db = [e]"
  then have "e \<in> set (filter (unacknowledged_match k s) db)" by (simp add: live_def)
  then show ?thesis by simp
qed

lemma row_by_id_member: "distinct (map id' db) \<Longrightarrow> e \<in> set db \<Longrightarrow> row_by_id (id' e) db = Some e"
proof -
  assume d: "distinct (map id' db)" and e: "e \<in> set db"
  then have "find (\<lambda>r. r = e) db = Some e" by (induction db) auto
  from row_by_id_of_found[OF d this] show ?thesis .
qed

lemma live_hd_member:
  "live k s db \<noteq> [] \<Longrightarrow> hd (live k s db) \<in> set db \<and> unacknowledged_match k s (hd (live k s db))"
proof -
  assume "live k s db \<noteq> []"
  then have "hd (live k s db) \<in> set (filter (unacknowledged_match k s) db)"
    unfolding live_def by (rule hd_in_set)
  then show ?thesis by simp
qed

lemma acknowledge_alert_found:
  "e \<in> set db \<Longrightarrow>
   acknowledge_alert (id' e) db =
     (True, map (\<lambda>r. if id' r = id' e then r\<lparr>acknowledged := True\<rparr> else r) db)"
proof -
  assume "e \<in> set db"
  then have "find (\<lambda>a. id' a = id' e) db \<noteq> None" by (auto simp: find_None_iff)
  then obtain a where a: "find (\<lambda>a. id' a = id' e) db = Some a" by auto
  from find_Some_holds[OF a] have "id' a = id' e" by simp
  with a show ?thesis by (simp add: acknowledge_alert_def)
qed

lemma acknowledge_alert_missing:
  "i \<notin> id' ` set db \<Longrightarrow> acknowledge_alert i db = (False, db)"
proof -
  assume "i \<notin> id' ` set db"
  then have "find (\<lambda>a. id' a = i) db = None" by (auto simp: find_None_iff)
  then show ?thesis by (simp add: acknowledge_alert_def)
qed

lemma live_acknowledged:
  "live k s (map (\<lambda>r. if id' r = i then r\<lparr>acknowledged := True\<rparr> else r) db) =
     filter (\<lambda>r. id' r \<noteq> i) (live k s db)"
  by (induction db) (auto simp: live_def unacknowledged_match_def)

lemma map_id_acknowledged:
  "map id' (map (\<lambda>r. if id' r = i then r\<lparr>acknowledged := True\<rparr> else r) db) = map id' db"
  by (induction db) simp_all

lemma row_by_id_acknowledged:
  "row_by_id j (map (\<lambda>r. if id' r = i then r\<lparr>acknowledged := True\<rparr> else r) db) =
     map_option (\<lambda>r. if id' r = i then r\<lparr>acknowledged := True\<rparr> else r) (row_by_id j db)"
  by (induction db) (auto simp: row_by_id_def)

lemma row_by_id_append_old:
  "row_by_id j db = Some r \<Longrightarrow> row_by_id j (db @ xs) = Some r"
  by (simp add: row_by_id_def find_append_list)

lemma next_id_cong: "map id' db = map id' db' \<Longrightarrow> next_id db = next_id db'"
  by (simp add: next_id_def)

lemma live_of_kind_empty: "live_of_kind k db = [] \<Longrightarrow> live k s db = []"
  by (auto simp: live_def live_of_kind_def filter_empty_conv unacknowledged_match_def)

lemma live_of_kind_append: "live_of_kind k (db @ xs) = live_of_kind k db @ live_of_kind k xs"
  by (simp add: live_of_kind_def)

section \<open>Deduplication\<close>

text \<open>
  C1. When a crossing of severity \<open>s\<close> of kind \<open>k\<close> is evaluated while an
  unacknowledged alert of that kind and severity is in the table, the outcome is Updated
  with the key of such an alert, the table holds the same rows as before (none is added),
  and that row now carries the value and the time of the current sample. Hence, from a table
  with no unacknowledged alert for \<open>(k, s)\<close>, the same crossing value fed twice
  gives Created and then Updated of the alert just created: one row more, and one live
  alert for \<open>(k, s)\<close>.
\<close>

theorem deduplication:
  assumes "distinct (map id' db)" and "crossed v th hiw = Some (s, t)"
  shows "(live k s db \<noteq> [] \<longrightarrow>
            (\<exists>e db'. e \<in> set db \<and> unacknowledged_match k s e \<and>
               check_metric fr k v th hiw now db = (Updated (id' e), db') \<and>
               map id' db' = map id' db \<and>
               row_by_id (id' e) db' = Some (e\<lparr>metric_value := num_val v, timestamp := now\<rparr>)))
       \<and> (live k s db = [] \<longrightarrow>
            (\<exists>a db1 db2. check_metric fr k v th hiw now db = (Created a, db1) \<and>
               check_metric fr k v th hiw now' db1 = (Updated (id' a), db2) \<and>
               length db2 = Suc (length db) \<and>
               live k s db2 = [a\<lparr>metric_value := num_val v, timestamp := now'\<rparr>]))"
proof (intro conjI impI)
  assume ne: "live k s db \<noteq> []"
  let ?e = "hd (live k s db)"
  let ?db' = "map (refresh_row (id' ?e) (num_val v) now) db"
  from live_hd_member[OF ne] have mem: "?e \<in> set db" and m: "unacknowledged_match k s ?e"
    by simp_all
  have "check_metric fr k v th hiw now db = (Updated (id' ?e), ?db')"
    by (rule check_metric_existing[OF assms(2) find_hd_live[OF ne]])
  moreover have "map id' ?db' = map id' db" by (rule map_id_refresh)
  moreover have "row_by_id (id' ?e) ?db' = Some (?e\<lparr>metric_value := num_val v, timestamp := now\<rparr>)"
    by (rule row_by_id_refresh[OF assms(1) row_by_id_member[OF assms(1) mem]])
  ultimately show "\<exists>e db'. e \<in> set db \<and> unacknowledged_match k s e \<and>
               check_metric fr k v th hiw now db = (Updated (id' e), db') \<and>
               map id' db' = map id' db \<and>
               row_by_id (id' e) db' = Some (e\<lparr>metric_value := num_val v, timestamp := now\<rparr>)"
    using mem m by blast
next
  assume none: "live k s db = []"
  let ?a = "new_row fr k v t s now db"
  let ?b = "?a\<lparr>metric_value := num_val v, timestamp := now'\<rparr>"
  note cu = created_then_updated[OF none assms(2) assms(2)]
  have "live k s (db @ [?b]) = [?b]"
    using none by (simp add: live_append) (simp add: live_def unacknowledged_match_def)
  then show "\<exists>a db1 db2. check_metric fr k v th hiw now db = (Created a, db1) \<and>
               check_metric fr k v th hiw now' db1 = (Updated (id' a), db2) \<and>
               length db2 = Suc (length db) \<and>
               live k s db2 = [a\<lparr>metric_value := num_val v, timestamp := now'\<rparr>]"
    by (intro exI[of _ ?a] exI[of _ "db @ [?a]"] exI[of _ "db @ [?b]"]) (simp add: cu)
qed

theorem deduplication_witness:
  "distinct (map id' [\<lparr>id' = 1, timestamp = 3, metric_type = ''cpu'', metric_value = 72,
       threshold_value = 70, severity = ''warning'', message = ''m'', acknowledged = False\<rparr>]) \<and>
   crossed (PyInt 75) \<lparr>warning = 70, critical = 85\<rparr> True = Some (''warning'', 70) \<and>
   live ''cpu'' ''warning'' [\<lparr>id' = 1, timestamp = 3, metric_type = ''cpu'', metric_value = 72,
       threshold_value = 70, severity = ''warning'', message = ''m'', acknowledged = False\<rparr>] \<noteq> [] \<and>
   check_metric (\<lambda>x. ''75.0'') ''cpu'' (PyInt 75) \<lparr>warning = 70, critical = 85\<rparr> True 9
     [\<lparr>id' = 1, timestamp = 3, metric_type = ''cpu'', metric_value = 72,
       threshold_value = 70, severity = ''warning'', message = ''m'', acknowledged = False\<rparr>] =
     (Updated 1, [\<lparr>id' = 1, timestamp = 9, metric_type = ''cpu'', metric_value = 75,
       threshold_value = 70, severity = ''warning'', message = ''m'', acknowledged = False\<rparr>]) \<and>
   live ''cpu'' ''warning'' [] = [] \<and>
   (\<exists>a db1 db2.
      check_metric (\<lambda>x. ''75.0'') ''cpu'' (PyInt 75) \<lparr>warning = 70, critical = 85\<rparr> True 9 [] =
        (Created a, db1) \<and>
      check_metric (\<lambda>x. ''75.0'') ''cpu'' (PyInt 75) \<lparr>warning = 70, critical = 85\<rparr> True 10 db1 =
        (Updated (id' a), db2) \<and>
      length db2 = Suc (length ([] :: alert list)) \<and>
      live ''cpu'' ''warning'' db2 = [a\<lparr>metric_value := num_val (PyInt 75), timestamp := 10\<rparr>])"
proof -
  let ?r = "\<lparr>id' = 1, timestamp = 3, metric_type = ''cpu'', metric_value = 72,
       threshold_value = 70, severity = ''warning'', message = ''m'', acknowledged = False\<rparr>"
  let ?th = "\<lparr>warning = 70, critical = 85\<rparr>"
  have d: "distinct (map id' [?r])" and d0: "distinct (map id' ([] :: alert list))" by simp_all
  have c: "crossed (PyInt 75) ?th True = Some (''warning'', 70)" by (simp add: crossed_def)
  have l1: "live ''cpu'' ''warning'' [?r] \<noteq> []" by (simp add: live_def unacknowledged_match_def)
  have l0: "live ''cpu'' ''warning'' [] = []" by (simp add: live_def)
  have u: "check_metric (\<lambda>x. ''75.0'') ''cpu'' (PyInt 75) ?th True 9 [?r] =
     (Updated 1, [\<lparr>id' = 1, timestamp = 9, metric_type = ''cpu'', metric_value = 75,
       threshold_value = 70, severity = ''warning'', message = ''m'', acknowledged = False\<rparr>])"
    using deduplication[OF d c, where k = "''cpu''" and fr = "\<lambda>x. ''75.0''" and now = 9] l1
    by (simp add: check_metric_def c unacknowledged_match_def refresh_row_def)
  from deduplication[OF d0 c, where k = "''cpu''" and fr = "\<lambda>x. ''75.0''" and now = 9
      and now' = 10] l0
  have "\<exists>a db1 db2.
      check_metric (\<lambda>x. ''75.0'') ''cpu'' (PyInt 75) ?th True 9 [] = (Created a, db1) \<and>
      check_metric (\<lambda>x. ''75.0'') ''cpu'' (PyInt 75) ?th True 10 db1 = (Updated (id' a), db2) \<and>
      length db2 = Suc (length ([] :: alert list)) \<and>
      live ''cpu'' ''warning'' db2 = [a\<lparr>metric_value := num_val (PyInt 75), timestamp := 10\<rparr>]"
    by blast
  with d c l1 l0 u show ?thesis by blast
qed

section \<open>The end-to-end CPU scenario\<close>

text \<open>
  C3. From a table with no unacknowledged cpu alert, the readings 60, 75, 88, 88, 65 against
  the cpu row of the threshold table give NoChange, Created (warning), Created (critical),
  Updated (that critical alert), NoChange. Afterwards the warning alert and the critical
  alert are both live, and the warning alert is the row that was created at 75: the last
  reading, below the warning level, leaves it as it is.
\<close>

theorem cpu_scenario:
  assumes "live_of_kind ''cpu'' db = []" and "getitem THRESHOLDS ''cpu'' = Inr th"
    and "map num_val [v1, v2, v3, v4, v5] = [60, 75, 88, 88, 65]"
  shows "\<exists>w c.
           feed fr ''cpu'' th True [(v1, t1), (v2, t2), (v3, t3), (v4, t4), (v5, t5)] db =
             ([NoChange, Created w, Created c, Updated (id' c), NoChange],
              db @ [w, c\<lparr>metric_value := 88, timestamp := t4\<rparr>]) \<and>
           w = new_row fr ''cpu'' v2 70 ''warning'' t2 db \<and>
           c = new_row fr ''cpu'' v3 85 ''critical'' t3 (db @ [w]) \<and>
           live_of_kind ''cpu'' (db @ [w, c\<lparr>metric_value := 88, timestamp := t4\<rparr>]) =
             [w, c\<lparr>metric_value := 88, timestamp := t4\<rparr>]"
proof -
  let ?w = "new_row fr ''cpu'' v2 70 ''warning'' t2 db"
  let ?c = "new_row fr ''cpu'' v3 85 ''critical'' t3 (db @ [?w])"
  let ?c' = "?c\<lparr>metric_value := 88, timestamp := t4\<rparr>"
  from assms(2) have th: "th = \<lparr>warning = 70, critical = 85\<rparr>" by (simp add: getitem_THRESHOLDS)
  from assms(3) have v: "num_val v1 = 60" "num_val v2 = 75" "num_val v3 = 88" "num_val v4 = 88"
    "num_val v5 = 65" by simp_all
  have c1: "crossed v1 th True = None" and c2: "crossed v2 th True = Some (''warning'', 70)"
    and c3: "crossed v3 th True = Some (''critical'', 85)"
    and c4: "crossed v4 th True = Some (''critical'', 85)"
    and c5: "crossed v5 th True = None"
    by (simp_all add: crossed_def th v)
  have s1: "check_metric fr ''cpu'' v1 th True t1 db = (NoChange, db)"
    by (rule check_metric_no_crossing[OF c1])
  have s2: "check_metric fr ''cpu'' v2 th True t2 db = (Created ?w, db @ [?w])"
    by (rule check_metric_fresh[OF c2 find_None_live[OF live_of_kind_empty[OF assms(1)]]])
  have none3: "live ''cpu'' ''critical'' (db @ [?w]) = []"
    using live_of_kind_empty[OF assms(1), of "''critical''"]
    by (simp add: live_append) (simp add: live_def unacknowledged_match_def)
  note cu = created_then_updated[OF none3 c3 c4]
  have s3: "check_metric fr ''cpu'' v3 th True t3 (db @ [?w]) = (Created ?c, db @ [?w, ?c])"
    using cu(1)[where fr = fr and ?now1.0 = t3] by simp
  have s4: "check_metric fr ''cpu'' v4 th True t4 (db @ [?w, ?c]) =
              (Updated (id' ?c), db @ [?w, ?c'])"
    using cu(2)[where fr = fr and ?now1.0 = t3 and ?now2.0 = t4] by (simp add: v)
  have s5: "check_metric fr ''cpu'' v5 th True t5 (db @ [?w, ?c']) = (NoChange, db @ [?w, ?c'])"
    by (rule check_metric_no_crossing[OF c5])
  have feed: "feed fr ''cpu'' th True [(v1, t1), (v2, t2), (v3, t3), (v4, t4), (v5, t5)] db =
             ([NoChange, Created ?w, Created ?c, Updated (id' ?c), NoChange], db @ [?w, ?c'])"
    by (simp add: s1 s2 s3 s4 s5)
  have lv: "live_of_kind ''cpu'' (db @ [?w, ?c']) = [?w, ?c']"
    using assms(1) by (simp add: live_of_kind_append) (simp add: live_of_kind_def)
  from feed lv show ?thesis
    by (intro exI[of _ ?w] exI[of _ ?c]) simp
qed

theorem cpu_scenario_witness:
  "live_of_kind ''cpu'' [] = [] \<and>
   getitem THRESHOLDS ''cpu'' = Inr \<lparr>warning = 70, critical = 85\<rparr> \<and>
   map num_val [PyFloat 60, PyFloat 75, PyInt 88, PyFloat 88, PyInt 65] = [60, 75, 88, 88, 65] \<and>
   (\<exists>w c.
      feed (\<lambda>x. ''f'') ''cpu'' \<lparr>warning = 70, critical = 85\<rparr> True
        [(PyFloat 60, 1), (PyFloat 75, 2), (PyInt 88, 3), (PyFloat 88, 4), (PyInt 65, 5)] [] =
        ([NoChange, Created w, Created c, Updated 2, NoChange],
         [w, c\<lparr>metric_value := 88, timestamp := 4\<rparr>]) \<and>
      id' w = 1 \<and> severity w = ''warning'' \<and> metric_value w = 75 \<and> timestamp w = 2 \<and>
      acknowledged w = False \<and>
      id' c = 2 \<and> severity c = ''critical'' \<and> acknowledged c = False)"
proof -
  have h1: "live_of_kind ''cpu'' [] = []" by (simp add: live_of_kind_def)
  have h2: "getitem THRESHOLDS ''cpu'' = Inr \<lparr>warning = 70, critical = 85\<rparr>"
    by (simp add: getitem_THRESHOLDS)
  have h3: "map num_val [PyFloat 60, PyFloat 75, PyInt 88, PyFloat 88, PyInt 65] = [60, 75, 88, 88, 65]"
    by simp
  from cpu_scenario[OF h1 h2 h3, where fr = "\<lambda>x. ''f''" and ?t1.0 = 1 and ?t2.0 = 2
      and ?t3.0 = 3 and ?t4.0 = 4 and ?t5.0 = 5]
  obtain w c where
    f: "feed (\<lambda>x. ''f'') ''cpu'' \<lparr>warning = 70, critical = 85\<rparr> True
        [(PyFloat 60, 1), (PyFloat 75, 2), (PyInt 88, 3), (PyFloat 88, 4), (PyInt 65, 5)] [] =
        ([NoChange, Created w, Created c, Updated (id' c), NoChange],
         [] @ [w, c\<lparr>metric_value := 88, timestamp := 4\<rparr>])" and
    w: "w = new_row (\<lambda>x. ''f'') ''cpu'' (PyFloat 75) 70 ''warning'' 2 []" and
    c: "c = new_row (\<lambda>x. ''f'') ''cpu'' (PyInt 88) 85 ''critical'' 3 ([] @ [w])"
    by blast
  have iw: "id' w = 1" by (simp add: w next_id_def)
  have ic: "id' c = 2" by (simp add: c next_id_def iw)
  from f ic have "feed (\<lambda>x. ''f'') ''cpu'' \<lparr>warning = 70, critical = 85\<rparr> True
        [(PyFloat 60, 1), (PyFloat 75, 2), (PyInt 88, 3), (PyFloat 88, 4), (PyInt 65, 5)] [] =
        ([NoChange, Created w, Created c, Updated 2, NoChange],
         [w, c\<lparr>metric_value := 88, timestamp := 4\<rparr>])" by simp
  moreover have "severity w = ''warning''" "metric_value w = 75" "timestamp w = 2"
    "acknowledged w = False" by (simp_all add: w)
  moreover have "severity c = ''critical''" "acknowledged c = False" by (simp_all add: c)
  ultimately show ?thesis using h1 h2 h3 iw ic by blast
qed

section \<open>A crossing after acknowledgment\<close>

text \<open>
  C6. Let \<open>e\<close> be the unacknowledged alert for \<open>(k, s)\<close>. Acknowledging it
  succeeds and flips its flag; the next crossing of \<open>(k, s)\<close> is Created of a new
  row, unacknowledged and under another key, appended to the table; the acknowledged row
  is not changed by that crossing.
\<close>

theorem fresh_alert_after_acknowledgment:
  assumes "distinct (map id' db)" and "live k s db = [e]" and "crossed v th hiw = Some (s, t)"
  shows "\<exists>db1 a db2.
           acknowledge_alert (id' e) db = (True, db1) \<and>
           row_by_id (id' e) db1 = Some (e\<lparr>acknowledged := True\<rparr>) \<and>
           check_metric fr k v th hiw now db1 = (Created a, db2) \<and>
           acknowledged a = False \<and> id' a \<noteq> id' e \<and> db2 = db1 @ [a] \<and>
           row_by_id (id' e) db2 = Some (e\<lparr>acknowledged := True\<rparr>)"
proof -
  let ?db1 = "map (\<lambda>r. if id' r = id' e then r\<lparr>acknowledged := True\<rparr> else r) db"
  let ?a = "new_row fr k v t s now ?db1"
  from live_member[OF assms(2)] have mem: "e \<in> set db" by simp
  have ack: "acknowledge_alert (id' e) db = (True, ?db1)" by (rule acknowledge_alert_found[OF mem])
  have r1: "row_by_id (id' e) ?db1 = Some (e\<lparr>acknowledged := True\<rparr>)"
    by (simp add: row_by_id_acknowledged row_by_id_member[OF assms(1) mem])
  have "live k s ?db1 = []" by (simp add: live_acknowledged assms(2))
  then have cm: "check_metric fr k v th hiw now ?db1 = (Created ?a, ?db1 @ [?a])"
    by (rule check_metric_fresh[OF assms(3) find_None_live])
  have "next_id ?db1 = next_id db" by (rule next_id_cong) (rule map_id_acknowledged)
  with next_id_fresh[OF mem] have fresh: "id' ?a \<noteq> id' e" by simp
  have r2: "row_by_id (id' e) (?db1 @ [?a]) = Some (e\<lparr>acknowledged := True\<rparr>)"
    by (rule row_by_id_append_old[OF r1])
  from ack r1 cm fresh r2 show ?thesis
    by (intro exI[of _ ?db1] exI[of _ ?a] exI[of _ "?db1 @ [?a]"]) simp
qed

theorem fresh_alert_after_acknowledgment_witness:
  "distinct (map id' [\<lparr>id' = 1, timestamp = 3, metric_type = ''cpu'', metric_value = 72,
       threshold_value = 70, severity = ''warning'', message = ''m'', acknowledged = False\<rparr>]) \<and>
   live ''cpu'' ''warning'' [\<lparr>id' = 1, timestamp = 3, metric_type = ''cpu'', metric_value = 72,
       threshold_value = 70, severity = ''warning'', message = ''m'', acknowledged = False\<rparr>] =
     [\<lparr>id' = 1, timestamp = 3, metric_type = ''cpu'', metric_value = 72,
       threshold_value = 70, severity = ''warning'', message = ''m'', acknowledged = False\<rparr>] \<and>
   crossed (PyInt 75) \<lparr>warning = 70, critical = 85\<rparr> True = Some (''warning'', 70) \<and>
   (\<exists>a. acknowledge_alert 1
          [\<lparr>id' = 1, timestamp = 3, metric_type = ''cpu'', metric_value = 72,
            threshold_value = 70, severity = ''warning'', message = ''m'', acknowledged = False\<rparr>] =
          (True, [\<lparr>id' = 1, timestamp = 3, metric_type = ''cpu'', metric_value = 72,
            threshold_value = 70, severity = ''warning'', message = ''m'', acknowledged = True\<rparr>]) \<and>
        check_metric (\<lambda>x. ''75.0'') ''cpu'' (PyInt 75) \<lparr>warning = 70, critical = 85\<rparr> True 9
          [\<lparr>id' = 1, timestamp = 3, metric_type = ''cpu'', metric_value = 72,
            threshold_value = 70, severity = ''warning'', message = ''m'', acknowledged = True\<rparr>] =
          (Created a,
           [\<lparr>id' = 1, timestamp = 3, metric_type = ''cpu'', metric_value = 72,
              threshold_value = 70, severity = ''warning'', message = ''m'', acknowledged = True\<rparr>, a]) \<and>
        acknowledged a = False \<and> id' a = 2)"
proof -
  let ?r = "\<lparr>id' = 1, timestamp = 3, metric_type = ''cpu'', metric_value = 72,
       threshold_value = 70, severity = ''warning'', message = ''m'', acknowledged = False\<rparr>"
  let ?r' = "\<lparr>id' = 1, timestamp = 3, metric_type = ''cpu'', metric_value = 72,
       threshold_value = 70, severity = ''warning'', message = ''m'', acknowledged = True\<rparr>"
  let ?th = "\<lparr>warning = 70, critical = 85\<rparr>"
  have d: "distinct (map id' [?r])" by simp
  have l: "live ''cpu'' ''warning'' [?r] = [?r]" by (simp add: live_def unacknowledged_match_def)
  have c: "crossed (PyInt 75) ?th True = Some (''warning'', 70)" by (simp add: crossed_def)
  have ack: "acknowledge_alert 1 [?r] = (True, [?r'])" by (simp add: acknowledge_alert_def)
  from fresh_alert_after_acknowledgment[OF d l c, where fr = "\<lambda>x. ''75.0''" and now = 9]
  obtain db1 a db2 where
    1: "acknowledge_alert (id' ?r) [?r] = (True, db1)" and
    2: "check_metric (\<lambda>x. ''75.0'') ''cpu'' (PyInt 75) ?th True 9 db1 = (Created a, db2)" and
    3: "acknowledged a = False" and 4: "db2 = db1 @ [a]" by blast
  from 1 ack have db1: "db1 = [?r']" by simp
  from 2 db1 have "id' a = 2"
    by (simp add: check_metric_def c unacknowledged_match_def Let_def next_id_def) auto
  with ack 2 3 4 db1 d l c show ?thesis by auto
qed

section \<open>What a refresh changes\<close>

text \<open>
  C10. When a check refreshes an existing alert, every row keeps its key, metric type,
  severity, threshold value, acknowledged flag and message; the rows under other keys are
  unchanged, and the refreshed row takes the value and the time of the sample. In
  particular an alert created at one value and refreshed at another still carries the
  message generated from the first value.
\<close>

theorem refresh_changes_only_sample:
  "(\<forall>i db'. check_metric fr k v th hiw now db = (Updated i, db') \<longrightarrow>
      list_all2 (\<lambda>a b. same_but_sample a b \<and> (id' a \<noteq> i \<longrightarrow> b = a) \<and>
                       (id' a = i \<longrightarrow> metric_value b = num_val v \<and> timestamp b = now))
        db db') \<and>
   (live k s db = [] \<and> crossed v1 th hiw = Some (s, t) \<and> crossed v2 th hiw = Some (s, t) \<longrightarrow>
      (\<exists>a db1 db2.
         check_metric fr k v1 th hiw now1 db = (Created a, db1) \<and>
         check_metric fr k v2 th hiw now2 db1 = (Updated (id' a), db2) \<and>
         row_by_id (id' a) db2 = Some (a\<lparr>metric_value := num_val v2, timestamp := now2\<rparr>) \<and>
         message a = generate_alert_message fr k v1 t s))"
proof (intro conjI allI impI)
  fix i db'
  assume u: "check_metric fr k v th hiw now db = (Updated i, db')"
  show "list_all2 (\<lambda>a b. same_but_sample a b \<and> (id' a \<noteq> i \<longrightarrow> b = a) \<and>
                       (id' a = i \<longrightarrow> metric_value b = num_val v \<and> timestamp b = now))
        db db'"
  proof (cases rule: check_metric_cases[of v th hiw fr k now db])
    case none
    with u show ?thesis by simp
  next
    case (existing s t e)
    with u have "i = id' e" "db' = map (refresh_row (id' e) (num_val v) now) db" by auto
    then show ?thesis using list_all2_refresh[of "id' e" "num_val v" now db] by simp
  next
    case (fresh s t)
    with u show ?thesis by simp
  qed
next
  assume h: "live k s db = [] \<and> crossed v1 th hiw = Some (s, t) \<and> crossed v2 th hiw = Some (s, t)"
  let ?a = "new_row fr k v1 t s now1 db"
  from h have none: "live k s db = []" and c1: "crossed v1 th hiw = Some (s, t)"
    and c2: "crossed v2 th hiw = Some (s, t)" by simp_all
  note cu = created_then_updated[OF none c1 c2]
  have "row_by_id (id' ?a) (db @ [?a\<lparr>metric_value := num_val v2, timestamp := now2\<rparr>]) =
          Some (?a\<lparr>metric_value := num_val v2, timestamp := now2\<rparr>)"
    by (simp add: row_by_id_append_new)
  then show "\<exists>a db1 db2.
         check_metric fr k v1 th hiw now1 db = (Created a, db1) \<and>
         check_metric fr k v2 th hiw now2 db1 = (Updated (id' a), db2) \<and>
         row_by_id (id' a) db2 = Some (a\<lparr>metric_value := num_val v2, timestamp := now2\<rparr>) \<and>
         message a = generate_alert_message fr k v1 t s"
    by (intro exI[of _ ?a] exI[of _ "db @ [?a]"]
        exI[of _ "db @ [?a\<lparr>metric_value := num_val v2, timestamp := now2\<rparr>]"])
      (simp add: cu)
qed

theorem refresh_changes_only_sample_witness:
  "check_metric (\<lambda>x. ''80.0'') ''cpu'' (PyInt 80) \<lparr>warning = 70, critical = 85\<rparr> True 20
     [\<lparr>id' = 1, timestamp = 3, metric_type = ''cpu'', metric_value = 72,
       threshold_value = 70, severity = ''warning'', message = ''m'', acknowledged = False\<rparr>] =
     (Updated 1, [\<lparr>id' = 1, timestamp = 20, metric_type = ''cpu'', metric_value = 80,
       threshold_value = 70, severity = ''warning'', message = ''m'', acknowledged = False\<rparr>]) \<and>
   same_but_sample
     \<lparr>id' = 1, timestamp = 3, metric_type = ''cpu'', metric_value = 72,
       threshold_value = 70, severity = ''warning'', message = ''m'', acknowledged = False\<rparr>
     \<lparr>id' = 1, timestamp = 20, metric_type = ''cpu'', metric_value = 80,
       threshold_value = 70, severity = ''warning'', message = ''m'', acknowledged = False\<rparr> \<and>
   live ''cpu'' ''critical''
     [\<lparr>id' = 1, timestamp = 3, metric_type = ''cpu'', metric_value = 72,
       threshold_value = 70, severity = ''warning'', message = ''m'', acknowledged = False\<rparr>] = [] \<and>
   crossed (PyInt 88) \<lparr>warning = 70, critical = 85\<rparr> True = Some (''critical'', 85) \<and>
   crossed (PyInt 90) \<lparr>warning = 70, critical = 85\<rparr> True = Some (''critical'', 85) \<and>
   (\<exists>a db1 db2.
      check_metric (\<lambda>x. ''80.0'') ''cpu'' (PyInt 88) \<lparr>warning = 70, critical = 85\<rparr> True 30
        [\<lparr>id' = 1, timestamp = 3, metric_type = ''cpu'', metric_value = 72,
          threshold_value = 70, severity = ''warning'', message = ''m'', acknowledged = False\<rparr>] =
        (Created a, db1) \<and>
      check_metric (\<lambda>x. ''80.0'') ''cpu'' (PyInt 90) \<lparr>warning = 70, critical = 85\<rparr> True 40 db1 =
        (Updated (id' a), db2) \<and>
      row_by_id (id' a) db2 = Some (a\<lparr>metric_value := num_val (PyInt 90), timestamp := 40\<rparr>) \<and>
      message a =
        generate_alert_message (\<lambda>x. ''80.0'') ''cpu'' (PyInt 88) 85 ''critical'')"
proof -
  let ?r = "\<lparr>id' = 1, timestamp = 3, metric_type = ''cpu'', metric_value = 72,
       threshold_value = 70, severity = ''warning'', message = ''m'', acknowledged = False\<rparr>"
  let ?r' = "\<lparr>id' = 1, timestamp = 20, metric_type = ''cpu'', metric_value = 80,
       threshold_value = 70, severity = ''warning'', message = ''m'', acknowledged = False\<rparr>"
  let ?th = "\<lparr>warning = 70, critical = 85\<rparr>"
  note inst = refresh_changes_only_sample[where fr = "\<lambda>x. ''80.0''" and k = "''cpu''"
      and v = "PyInt 80" and th = "?th" and hiw = True and now = 20 and db = "[?r]"
      and s = "''critical''" and ?v1.0 = "PyInt 88" and ?v2.0 = "PyInt 90" and t = 85
      and ?now1.0 = 30 and ?now2.0 = 40]
  have u: "check_metric (\<lambda>x. ''80.0'') ''cpu'' (PyInt 80) ?th True 20 [?r] = (Updated 1, [?r'])"
    by (simp add: check_metric_def crossed_def unacknowledged_match_def refresh_row_def)
  with inst have "list_all2 (\<lambda>a b. same_but_sample a b \<and> (id' a \<noteq> 1 \<longrightarrow> b = a) \<and>
                       (id' a = 1 \<longrightarrow> metric_value b = num_val (PyInt 80) \<and> timestamp b = 20))
        [?r] [?r']" by blast
  then have sb: "same_but_sample ?r ?r'" by simp
  have l: "live ''cpu'' ''critical'' [?r] = []" by (simp add: live_def unacknowledged_match_def)
  have c1: "crossed (PyInt 88) ?th True = Some (''critical'', 85)"
    and c2: "crossed (PyInt 90) ?th True = Some (''critical'', 85)" by (simp_all add: crossed_def)
  from inst l c1 c2 have "\<exists>a db1 db2.
      check_metric (\<lambda>x. ''80.0'') ''cpu'' (PyInt 88) ?th True 30 [?r] = (Created a, db1) \<and>
      check_metric (\<lambda>x. ''80.0'') ''cpu'' (PyInt 90) ?th True 40 db1 = (Updated (id' a), db2) \<and>
      row_by_id (id' a) db2 = Some (a\<lparr>metric_value := num_val (PyInt 90), timestamp := 40\<rparr>) \<and>
      message a = generate_alert_message (\<lambda>x. ''80.0'') ''cpu'' (PyInt 88) 85 ''critical''"
    by blast
  with u sb l c1 c2 show ?thesis by blast
qed

section \<open>Uniqueness of the live alert\<close>

lemma live_refresh:
  "live k s (map (refresh_row i v now) db) = map (refresh_row i v now) (live k s db)"
  by (induction db) (auto simp: live_def unacknowledged_match_def refresh_row_def)

lemma live_new_row_other:
  "(k', s') \<noteq> (k, s) \<Longrightarrow> live k' s' [new_row fr k v t s now db] = []"
  by (auto simp: live_def unacknowledged_match_def)

lemma check_metric_unique:
  assumes "\<And>k s. length (live k s db) \<le> 1"
  shows "length (live k' s' (snd (check_metric fr k v th hiw now db))) \<le> 1"
proof (cases rule: check_metric_cases[of v th hiw fr k now db])
  case none
  with assms show ?thesis by simp
next
  case (existing s t e)
  with assms[of k' s'] show ?thesis by (simp add: live_refresh)
next
  case (fresh s t)
  from fresh(2) have none: "live k s db = []"
    by (simp add: find_as_filter live_def split: list.splits)
  show ?thesis
  proof (cases "(k', s') = (k, s)")
    case True
    with fresh(3) none show ?thesis by (simp add: live_append live_new_row)
  next
    case False
    with fresh(3) assms[of k' s'] show ?thesis by (simp add: live_append live_new_row_other)
  qed
qed

lemma check_and_create_alerts_unique:
  assumes "\<And>k s. length (live k s db) \<le> 1"
  shows "\<exists>new db'. check_and_create_alerts fr m clock db = Inr (new, db') \<and>
           (\<forall>k s. length (live k s db') \<le> 1)"
proof -
  have "\<exists>new db'. check_and_create_alerts fr m clock db = Inr (new, db') \<and>
          ((\<forall>k s. length (live k s db) \<le> 1) \<longrightarrow> (\<forall>k s. length (live k s db') \<le> 1))"
  proof (rule check_and_create_alerts_steps[where R = "\<lambda>a b. (\<forall>k s. length (live k s a) \<le> 1) \<longrightarrow> (\<forall>k s. length (live k s b) \<le> 1)"])
    fix k v th hiw now d
    show "(\<forall>k s. length (live k s d) \<le> 1) \<longrightarrow>
          (\<forall>k' s'. length (live k' s' (snd (check_metric fr k v th hiw now d))) \<le> 1)"
      using check_metric_unique[of d _ _ fr k v th hiw now] by blast
  next
    fix a b c :: session
    assume "(\<forall>k s. length (live k s a) \<le> 1) \<longrightarrow> (\<forall>k s. length (live k s b) \<le> 1)"
      "(\<forall>k s. length (live k s b) \<le> 1) \<longrightarrow> (\<forall>k s. length (live k s c) \<le> 1)"
    then show "(\<forall>k s. length (live k s a) \<le> 1) \<longrightarrow> (\<forall>k s. length (live k s c) \<le> 1)"
      by blast
  qed
  with assms show ?thesis by blast
qed

lemma acknowledge_alert_unique:
  assumes "\<And>k s. length (live k s db) \<le> 1"
  shows "length (live k s (snd (acknowledge_alert i db))) \<le> 1"
proof (cases "find (\<lambda>a. id' a = i) db")
  case None
  with assms show ?thesis by (simp add: acknowledge_alert_def)
next
  case (Some a)
  from find_Some_holds[OF Some] have "id' a = i" by simp
  with Some have eq: "snd (acknowledge_alert i db) =
      map (\<lambda>r. if id' r = i then r\<lparr>acknowledged := True\<rparr> else r) db"
    by (simp add: acknowledge_alert_def)
  have "length (filter (\<lambda>r. id' r \<noteq> i) (live k s db)) \<le> length (live k s db)"
    by (rule length_filter_le)
  also have "\<dots> \<le> 1" by (rule assms)
  finally show ?thesis by (simp only: eq live_acknowledged)
qed

lemma apply_operation_unique:
  assumes "\<And>k s. length (live k s db) \<le> 1"
  shows "length (live k s (apply_operation fr x db)) \<le> 1"
proof (cases x)
  case (Evaluate m clock)
  from check_and_create_alerts_unique[OF assms, of fr m clock]
  obtain new db' where "check_and_create_alerts fr m clock db = Inr (new, db')"
    and "\<forall>k s. length (live k s db') \<le> 1" by blast
  with Evaluate show ?thesis by simp
next
  case (Acknowledge i)
  with acknowledge_alert_unique[OF assms] show ?thesis by simp
qed

lemma run_unique:
  "(\<And>k s. length (live k s db) \<le> 1) \<Longrightarrow> length (live k s (run fr ops db)) \<le> 1"
proof (induction ops arbitrary: db k s)
  case Nil
  then show ?case by simp
next
  case (Cons x ops)
  have "\<And>k s. length (live k s (apply_operation fr x db)) \<le> 1"
    by (rule apply_operation_unique) (rule Cons.prems)
  then show ?case using Cons.IH by simp
qed

text \<open>
  C4. In every table reached from the empty one by evaluations and acknowledgments there
  is at most one unacknowledged alert for each pair of a metric kind and a severity: the
  lookup before an insertion is by kind and severity.
\<close>

theorem unique_live_alert_per_kind_and_severity:
  "length (live k s (run fr ops [])) \<le> 1"
  by (rule run_unique) (simp add: live_def)

theorem unique_live_alert_per_kind_and_severity_witness:
  "length (live ''cpu'' ''warning''
     (run (\<lambda>x. [])
        [Evaluate \<lparr>cpu = \<lparr>usage_percent = PyInt 75\<rparr>, memory = \<lparr>usage_percent = PyInt 0\<rparr>,
                   disk = \<lparr>usage_percent = PyInt 0\<rparr>, battery = None\<rparr> (\<lambda>k. 1),
         Evaluate \<lparr>cpu = \<lparr>usage_percent = PyInt 76\<rparr>, memory = \<lparr>usage_percent = PyInt 0\<rparr>,
                   disk = \<lparr>usage_percent = PyInt 0\<rparr>, battery = None\<rparr> (\<lambda>k. 2)]
        [])) \<le> 1"
  by (rule unique_live_alert_per_kind_and_severity)

text \<open>
  Per kind alone the bound fails: a cpu reading of 75 followed by one of 88 leaves a
  warning alert and a critical alert for cpu, both unacknowledged.
\<close>

theorem per_kind_uniqueness_counterexample:
  "\<not> length (live_of_kind ''cpu''
        (run (\<lambda>x. '''')
           [Evaluate \<lparr>cpu = \<lparr>usage_percent = PyInt 75\<rparr>, memory = \<lparr>usage_percent = PyInt 0\<rparr>,
                      disk = \<lparr>usage_percent = PyInt 0\<rparr>, battery = None\<rparr> (\<lambda>k. 1),
            Evaluate \<lparr>cpu = \<lparr>usage_percent = PyInt 88\<rparr>, memory = \<lparr>usage_percent = PyInt 0\<rparr>,
                      disk = \<lparr>usage_percent = PyInt 0\<rparr>, battery = None\<rparr> (\<lambda>k. 2)]
           [])) \<le> 1"
  by (simp add: check_and_create_alerts_unfold check_metric_def crossed_def Let_def
      unacknowledged_match_def live_of_kind_def)

section \<open>A plugged-in battery\<close>

lemma same_id_same_row:
  "distinct (map id' db) \<Longrightarrow> r \<in> set db \<Longrightarrow> e \<in> set db \<Longrightarrow> id' r = id' e \<Longrightarrow> r = e"
  by (meson distinct_map inj_on_eq_iff)

lemma filter_map_unchanged:
  "(\<And>r. r \<in> set db \<Longrightarrow> P (f r) = P r \<and> (P r \<longrightarrow> f r = r)) \<Longrightarrow>
   filter P (map f db) = filter P db"
  by (induction db) auto

lemma check_metric_distinct:
  "distinct (map id' db) \<Longrightarrow> distinct (map id' (snd (check_metric fr k v th hiw now db)))"
proof (cases rule: check_metric_cases[of v th hiw fr k now db])
  case none
  assume "distinct (map id' db)"
  with none show ?thesis by simp
next
  case (existing s t e)
  assume "distinct (map id' db)"
  then show ?thesis unfolding existing(3) snd_conv map_id_refresh .
next
  case (fresh s t)
  assume "distinct (map id' db)"
  with fresh show ?thesis by (simp add: next_id_notin)
qed

lemma check_metric_other_kind:
  assumes d: "distinct (map id' db)" and ne: "k' \<noteq> k"
  shows "filter (\<lambda>a. metric_type a = k') (snd (check_metric fr k v th hiw now db)) =
           filter (\<lambda>a. metric_type a = k') db"
proof (cases rule: check_metric_cases[of v th hiw fr k now db])
  case none
  then show ?thesis by simp
next
  case (existing s t e)
  from find_Some_holds[OF existing(2)] have e: "e \<in> set db" and ke: "metric_type e = k"
    by (simp_all add: unacknowledged_match_def)
  have "filter (\<lambda>a. metric_type a = k') (map (refresh_row (id' e) (num_val v) now) db) =
          filter (\<lambda>a. metric_type a = k') db"
  proof (rule filter_map_unchanged)
    fix r
    assume r: "r \<in> set db"
    show "(metric_type (refresh_row (id' e) (num_val v) now r) = k') = (metric_type r = k') \<and>
          (metric_type r = k' \<longrightarrow> refresh_row (id' e) (num_val v) now r = r)"
    proof (cases "id' r = id' e")
      case True
      from same_id_same_row[OF d r e True] ke ne show ?thesis by (simp add: refresh_row_def)
    next
      case False
      then show ?thesis by (simp add: refresh_row_def)
    qed
  qed
  with existing(3) show ?thesis by simp
next
  case (fresh s t)
  with ne show ?thesis by simp
qed

lemma returned_kind:
  "returned (fst (check_metric fr k v th hiw now db)) = Some a \<Longrightarrow> metric_type a = k"
  by (cases rule: check_metric_cases[of v th hiw fr k now db]) auto

lemma append_new_other_kind:
  "k' \<noteq> k \<Longrightarrow> filter (\<lambda>a. metric_type a = k') new = [] \<Longrightarrow>
   filter (\<lambda>a. metric_type a = k')
     (append_new new (fst (check_metric fr k v th hiw now db))) = []"
  using returned_kind[of fr k v th hiw now db]
  by (auto simp: append_new_def split: option.splits)

text \<open>
  C5. When the battery reading is present and \<open>is_plugged\<close> is true, the evaluation
  is the one of the same record without a battery, whatever the percentage: only cpu,
  memory and disk are checked. No battery row of the table is created or changed, and no
  battery alert is among the new alerts.
\<close>

theorem plugged_battery_not_checked:
  assumes "distinct (map id' db)" and "battery m = Some b" and "is_plugged b = Some True"
  shows "check_and_create_alerts fr m clock db =
           check_and_create_alerts fr (m\<lparr>battery := None\<rparr>) clock db \<and>
         (\<exists>new db'. check_and_create_alerts fr m clock db = Inr (new, db') \<and>
            filter (\<lambda>a. metric_type a = ''battery'') db' =
              filter (\<lambda>a. metric_type a = ''battery'') db \<and>
            filter (\<lambda>a. metric_type a = ''battery'') new = [])"
proof -
  define r1 where "r1 = check_metric fr ''cpu'' (usage_percent (cpu m)) \<lparr>warning = 70, critical = 85\<rparr>
                 True (clock ''cpu'') db"
  define r2 where "r2 = check_metric fr ''memory'' (usage_percent (memory m))
                 \<lparr>warning = 75, critical = 90\<rparr> True (clock ''memory'') (snd r1)"
  define r3 where "r3 = check_metric fr ''disk'' (usage_percent (disk m)) \<lparr>warning = 80, critical = 95\<rparr>
                 True (clock ''disk'') (snd r2)"
  define new3 where "new3 = append_new (append_new (append_new [] (fst r1)) (fst r2)) (fst r3)"
  have eq: "check_and_create_alerts fr m clock db = Inr (new3, snd r3)"
    using assms(2,3)
    by (simp add: check_and_create_alerts_unfold Let_def r1_def r2_def r3_def new3_def)
  have eq0: "check_and_create_alerts fr (m\<lparr>battery := None\<rparr>) clock db = Inr (new3, snd r3)"
    by (simp add: check_and_create_alerts_unfold Let_def r1_def r2_def r3_def new3_def)
  have d1: "distinct (map id' (snd r1))" unfolding r1_def by (rule check_metric_distinct[OF assms(1)])
  have d2: "distinct (map id' (snd r2))" unfolding r2_def by (rule check_metric_distinct[OF d1])
  have "filter (\<lambda>a. metric_type a = ''battery'') (snd r1) = filter (\<lambda>a. metric_type a = ''battery'') db"
    unfolding r1_def by (rule check_metric_other_kind[OF assms(1)]) simp
  moreover have "filter (\<lambda>a. metric_type a = ''battery'') (snd r2) =
      filter (\<lambda>a. metric_type a = ''battery'') (snd r1)"
    unfolding r2_def by (rule check_metric_other_kind[OF d1]) simp
  moreover have "filter (\<lambda>a. metric_type a = ''battery'') (snd r3) =
      filter (\<lambda>a. metric_type a = ''battery'') (snd r2)"
    unfolding r3_def by (rule check_metric_other_kind[OF d2]) simp
  ultimately have rows: "filter (\<lambda>a. metric_type a = ''battery'') (snd r3) =
      filter (\<lambda>a. metric_type a = ''battery'') db" by simp
  have n1: "filter (\<lambda>a. metric_type a = ''battery'') (append_new [] (fst r1)) = []"
    unfolding r1_def by (rule append_new_other_kind) simp_all
  have n2: "filter (\<lambda>a. metric_type a = ''battery'') (append_new (append_new [] (fst r1)) (fst r2)) = []"
    unfolding r2_def by (rule append_new_other_kind[OF _ n1]) simp
  have n3: "filter (\<lambda>a. metric_type a = ''battery'') new3 = []"
    unfolding new3_def r3_def by (rule append_new_other_kind[OF _ n2]) simp
  from eq eq0 rows n3 show ?thesis by simp
qed

theorem plugged_battery_not_checked_witness:
  "distinct (map id' ([] :: alert list)) \<and>
   battery \<lparr>cpu = \<lparr>usage_percent = PyInt 10\<rparr>, memory = \<lparr>usage_percent = PyInt 10\<rparr>,
            disk = \<lparr>usage_percent = PyInt 10\<rparr>,
            battery = Some \<lparr>percent = PyInt 5, is_plugged = Some True\<rparr>\<rparr> =
     Some \<lparr>percent = PyInt 5, is_plugged = Some True\<rparr> \<and>
   is_plugged \<lparr>percent = PyInt 5, is_plugged = Some True\<rparr> = Some True \<and>
   check_and_create_alerts (\<lambda>x. '''')
     \<lparr>cpu = \<lparr>usage_percent = PyInt 10\<rparr>, memory = \<lparr>usage_percent = PyInt 10\<rparr>,
      disk = \<lparr>usage_percent = PyInt 10\<rparr>,
      battery = Some \<lparr>percent = PyInt 5, is_plugged = Some True\<rparr>\<rparr> (\<lambda>k. 1) [] = Inr ([], [])"
  using plugged_battery_not_checked[where db = "[]" and fr = "\<lambda>x. ''''" and clock = "\<lambda>k. 1"
      and b = "\<lparr>percent = PyInt 5, is_plugged = Some True\<rparr>"
      and m = "\<lparr>cpu = \<lparr>usage_percent = PyInt 10\<rparr>, memory = \<lparr>usage_percent = PyInt 10\<rparr>,
            disk = \<lparr>usage_percent = PyInt 10\<rparr>,
            battery = Some \<lparr>percent = PyInt 5, is_plugged = Some True\<rparr>\<rparr>"]
  by (simp add: check_and_create_alerts_unfold check_metric_def crossed_def Let_def append_new_def)

section \<open>The message of a created alert\<close>

lemma upper_severities:
  "upper ''warning'' = ''WARNING''" "upper ''critical'' = ''CRITICAL''"
  by code_simp+

lemma crossed_severity:
  "crossed v th hiw = Some (s, t) \<Longrightarrow>
     (s = ''warning'' \<and> t = warning th) \<or> (s = ''critical'' \<and> t = critical th)"
  by (auto simp: crossed_def split: if_splits)

lemma metric_names_table:
  "map_of metric_names ''cpu'' = Some ''CPU usage''"
  "map_of metric_names ''memory'' = Some ''Memory usage''"
  "map_of metric_names ''disk'' = Some ''Disk usage''"
  "map_of metric_names ''battery'' = Some ''Battery level''"
  by (simp_all add: metric_names_def)

lemma created_row:
  "check_metric fr k v th hiw now db = (Created a, db') \<Longrightarrow>
   \<exists>s t. crossed v th hiw = Some (s, t) \<and> a = new_row fr k v t s now db"
  by (cases rule: check_metric_cases[of v th hiw fr k now db]) auto

text \<open>
  C9. The message stored with an alert created for a kind of the threshold table is the
  emoji of its severity (the warning sign for warning, the red circle for critical), a
  space, the severity in upper case, a colon and a space, the display name of the kind,
  \<open>is high at\<close> for cpu, memory and disk and \<open>is low at\<close> for battery, the
  value, \<open>% (threshold: \<close>, the threshold crossed and \<open>%)\<close>. It is the
  formatter applied to the kind, the value, the threshold and the severity, and depends on
  nothing else.
\<close>

theorem message_format:
  assumes "(k, th) \<in> set THRESHOLDS"
    and "check_metric fr k v th (k \<noteq> ''battery'') now db = (Created a, db')"
  shows "(severity a = ''warning'' \<or> severity a = ''critical'') \<and>
         message a =
           (if severity a = ''warning'' then warning_emoji else critical_emoji) @ '' '' @
           (if severity a = ''warning'' then ''WARNING'' else ''CRITICAL'') @ '': '' @
           (if k = ''cpu'' then ''CPU usage'' else if k = ''memory'' then ''Memory usage''
            else if k = ''disk'' then ''Disk usage'' else ''Battery level'') @
           (if k = ''battery'' then '' is low at '' else '' is high at '') @
           py_format fr v @ ''% (threshold: '' @
           str_int (if severity a = ''warning'' then warning th else critical th) @ ''%)'' \<and>
         message a =
           generate_alert_message fr k v
             (if severity a = ''warning'' then warning th else critical th) (severity a)"
proof -
  from created_row[OF assms(2)] obtain s t where
    c: "crossed v th (k \<noteq> ''battery'') = Some (s, t)" and a: "a = new_row fr k v t s now db"
    by blast
  from crossed_severity[OF c] have st:
    "(s = ''warning'' \<and> t = warning th) \<or> (s = ''critical'' \<and> t = critical th)" .
  from THRESHOLDS_cases[OF assms(1)] have k:
    "k = ''cpu'' \<or> k = ''memory'' \<or> k = ''disk'' \<or> k = ''battery''" by auto
  from st show ?thesis
  proof
    assume "s = ''warning'' \<and> t = warning th"
    with k show ?thesis
      by (auto simp: a generate_alert_message_def Let_def metric_names_table upper_severities)
  next
    assume "s = ''critical'' \<and> t = critical th"
    with k show ?thesis
      by (auto simp: a generate_alert_message_def Let_def metric_names_table upper_severities)
  qed
qed

theorem message_format_witness:
  "(''cpu'', \<lparr>warning = 70, critical = 85\<rparr>) \<in> set THRESHOLDS \<and>
   (\<exists>a db'. check_metric (\<lambda>x. ''88.5'') ''cpu'' (PyFloat 88.5) \<lparr>warning = 70, critical = 85\<rparr>
       (''cpu'' \<noteq> ''battery'') 7 [] = (Created a, db') \<and>
     message a = critical_emoji @ '' CRITICAL: CPU usage is high at 88.5% (threshold: 85%)'')"
proof -
  let ?th = "\<lparr>warning = 70, critical = 85\<rparr>"
  let ?a = "new_row (\<lambda>x. ''88.5'') ''cpu'' (PyFloat 88.5) 85 ''critical'' 7 []"
  have h1: "(''cpu'', ?th) \<in> set THRESHOLDS" by (simp add: THRESHOLDS_def)
  have h2: "check_metric (\<lambda>x. ''88.5'') ''cpu'' (PyFloat 88.5) ?th (''cpu'' \<noteq> ''battery'') 7 [] =
      (Created ?a, [?a])"
    by (simp add: check_metric_def crossed_def Let_def new_row_def)
  have s85: "str_int 85 = ''85''" by code_simp
  from message_format[OF h1 h2]
  have "message ?a = critical_emoji @ '' CRITICAL: CPU usage is high at 88.5% (threshold: 85%)''"
    by (simp add: s85)
  with h1 h2 show ?thesis by blast
qed

section \<open>Errors inside a tick\<close>

lemma check_and_create_alerts_returns:
  "\<exists>new db'. check_and_create_alerts fr m clock db = Inr (new, db')"
  using kept_check_and_create_alerts[of fr m clock db] by blast

lemma try_block_raises: "fst (try_block fr env w) = fault_of env"
proof (cases "sampled env")
  case (Inl e)
  then show ?thesis by (simp add: try_block_def fault_of_def)
next
  case (Inr m)
  show ?thesis
  proof (cases "snapshot_commit_fault env")
    case (Some e)
    with Inr show ?thesis by (simp add: try_block_def fault_of_def db_commit_def)
  next
    case None
    show ?thesis
    proof (cases "evaluation_fault env")
      case (Some p)
      with Inr None show ?thesis
        by (cases p) (simp add: try_block_def fault_of_def db_commit_def)
    next
      case none: None
      obtain new db' where
        "check_and_create_alerts fr m (clock_of env)
           (alerts (snd (db_commit None (db_add m w)))) = Inr (new, db')"
        using check_and_create_alerts_returns by blast
      with Inr None none show ?thesis
        by (simp add: try_block_def fault_of_def db_commit_def)
    qed
  qed
qed

lemma try_block_trace: "\<exists>tr. trace (snd (try_block fr env w)) = trace w @ tr"
proof (cases "sampled env")
  case (Inl e)
  then show ?thesis by (simp add: try_block_def)
next
  case (Inr m)
  show ?thesis
  proof (cases "snapshot_commit_fault env")
    case (Some e)
    with Inr show ?thesis by (simp add: try_block_def db_commit_def db_add_def)
  next
    case None
    show ?thesis
    proof (cases "evaluation_fault env")
      case (Some p)
      with Inr None show ?thesis
        by (cases p) (simp add: try_block_def db_commit_def db_add_def)
    next
      case none: None
      obtain new db' where
        "check_and_create_alerts fr m (clock_of env)
           (alerts (snd (db_commit None (db_add m w)))) = Inr (new, db')"
        using check_and_create_alerts_returns by blast
      with Inr None none show ?thesis
        by (simp add: try_block_def db_commit_def db_add_def print_line_def)
    qed
  qed
qed

lemma try_block_snapshots:
  "sampled env = Inl e \<or> snapshot_commit_fault env \<noteq> None \<Longrightarrow>
   snapshots (snd (try_block fr env w)) = snapshots w"
  by (auto simp: try_block_def db_commit_def db_add_def split: sum.splits)

lemma tick_no_fault:
  "fault_of env = None \<Longrightarrow>
   collect_and_save_metrics fr env w =
     (None, db_close (snd (try_block fr env (SessionLocal w))))"
proof -
  obtain r w1 where t: "try_block fr env (SessionLocal w) = (r, w1)"
    by (cases "try_block fr env (SessionLocal w)")
  with try_block_raises[of fr env "SessionLocal w"] have r: "r = fault_of env" by simp
  assume "fault_of env = None"
  with t r show ?thesis by (simp add: collect_and_save_metrics_def)
qed

lemma tick_error:
  "fault_of env = Some e \<Longrightarrow> is_Exception e \<Longrightarrow>
   collect_and_save_metrics fr env w =
     (None, db_close (db_rollback (print_line (PrintedError e)
        (snd (try_block fr env (SessionLocal w))))))"
proof -
  obtain r w1 where t: "try_block fr env (SessionLocal w) = (r, w1)"
    by (cases "try_block fr env (SessionLocal w)")
  with try_block_raises[of fr env "SessionLocal w"] have r: "r = fault_of env" by simp
  assume "fault_of env = Some e" "is_Exception e"
  with t r show ?thesis by (simp add: collect_and_save_metrics_def)
qed

lemma tick_escape:
  "fault_of env = Some e \<Longrightarrow> \<not> is_Exception e \<Longrightarrow>
   collect_and_save_metrics fr env w =
     (Some e, db_close (snd (try_block fr env (SessionLocal w))))"
proof -
  obtain r w1 where t: "try_block fr env (SessionLocal w) = (r, w1)"
    by (cases "try_block fr env (SessionLocal w)")
  with try_block_raises[of fr env "SessionLocal w"] have r: "r = fault_of env" by simp
  assume "fault_of env = Some e" "\<not> is_Exception e"
  with t r show ?thesis by (simp add: collect_and_save_metrics_def)
qed

lemma tick_contained:
  assumes "errors_only env"
  shows "fst (collect_and_save_metrics fr env w) = None"
    and "pending (snd (collect_and_save_metrics fr env w)) = []"
    and "last (trace (snd (collect_and_save_metrics fr env w))) = SessionClosed"
proof -
  show "fst (collect_and_save_metrics fr env w) = None"
    using assms by (cases "fault_of env") (simp_all add: errors_only_def tick_no_fault tick_error)
  show "pending (snd (collect_and_save_metrics fr env w)) = []"
    using assms
    by (cases "fault_of env") (simp_all add: errors_only_def tick_no_fault tick_error db_close_def)
  show "last (trace (snd (collect_and_save_metrics fr env w))) = SessionClosed"
    using assms
    by (cases "fault_of env") (simp_all add: errors_only_def tick_no_fault tick_error db_close_def)
qed

lemma tick_error_trace:
  assumes "fault_of env = Some e" and "is_Exception e"
  shows "\<exists>tr. trace (snd (collect_and_save_metrics fr env w)) =
           trace w @ SessionOpened # tr @ [PrintedError e, RolledBack, SessionClosed]"
proof -
  from try_block_trace[of fr env "SessionLocal w"] obtain tr where
    "trace (snd (try_block fr env (SessionLocal w))) = trace (SessionLocal w) @ tr" by blast
  then have "trace (snd (collect_and_save_metrics fr env w)) =
           trace w @ SessionOpened # tr @ [PrintedError e, RolledBack, SessionClosed]"
    by (simp add: tick_error[OF assms] db_close_def db_rollback_def print_line_def SessionLocal_def)
  then show ?thesis by blast
qed

lemma run_job_all:
  "list_all errors_only envs \<Longrightarrow>
   fst (run_job fr envs w n) = None \<and> snd (snd (run_job fr envs w n)) = n + length envs"
proof (induction envs arbitrary: w n)
  case Nil
  then show ?case by simp
next
  case (Cons env envs)
  from Cons.prems have e: "errors_only env" and es: "list_all errors_only envs" by simp_all
  obtain w' where t: "collect_and_save_metrics fr env w = (None, w')"
    using tick_contained(1)[OF e, of fr w] by (cases "collect_and_save_metrics fr env w") simp
  from Cons.IH[OF es, of w' "Suc n"] t show ?case by simp
qed

text \<open>
  C8. Whichever step of a tick raises an error (the sampler, the commit of the snapshot,
  the alert evaluation), no exception leaves \<open>collect_and_save_metrics\<close>: the error
  is printed, the session is rolled back and then closed, in this order, and nothing stays
  pending; a snapshot whose commit failed is not in the table. So every firing of the job
  takes place, the failed tick being followed by the next one. The rollback, the close and
  the print are taken not to raise.
\<close>

theorem tick_error_containment:
  assumes "list_all errors_only (env # envs)"
  shows "fst (collect_and_save_metrics fr env w) = None \<and>
         pending (snd (collect_and_save_metrics fr env w)) = [] \<and>
         last (trace (snd (collect_and_save_metrics fr env w))) = SessionClosed \<and>
         (\<forall>e. fault_of env = Some e \<longrightarrow>
            (\<exists>tr. trace (snd (collect_and_save_metrics fr env w)) =
               trace w @ SessionOpened # tr @ [PrintedError e, RolledBack, SessionClosed])) \<and>
         (snapshot_commit_fault env \<noteq> None \<longrightarrow>
            snapshots (snd (collect_and_save_metrics fr env w)) = snapshots w) \<and>
         fst (run_job fr (env # envs) w n) = None \<and>
         snd (snd (run_job fr (env # envs) w n)) = n + Suc (length envs)"
proof -
  from assms have e: "errors_only env" by simp
  have tr: "\<forall>x. fault_of env = Some x \<longrightarrow>
            (\<exists>tr. trace (snd (collect_and_save_metrics fr env w)) =
               trace w @ SessionOpened # tr @ [PrintedError x, RolledBack, SessionClosed])"
  proof (intro allI impI)
    fix x
    assume f: "fault_of env = Some x"
    with e have "is_Exception x" by (simp add: errors_only_def)
    from tick_error_trace[OF f this] show "\<exists>tr. trace (snd (collect_and_save_metrics fr env w)) =
               trace w @ SessionOpened # tr @ [PrintedError x, RolledBack, SessionClosed]" .
  qed
  have sn: "snapshot_commit_fault env \<noteq> None \<longrightarrow>
            snapshots (snd (collect_and_save_metrics fr env w)) = snapshots w"
  proof
    assume c: "snapshot_commit_fault env \<noteq> None"
    then have s: "snapshots (snd (try_block fr env (SessionLocal w))) = snapshots (SessionLocal w)"
      by (intro try_block_snapshots) simp
    from c have "fault_of env \<noteq> None" by (auto simp: fault_of_def split: sum.splits)
    then obtain x where f: "fault_of env = Some x" by auto
    with e have "is_Exception x" by (simp add: errors_only_def)
    from tick_error[OF f this, of fr w] s
    show "snapshots (snd (collect_and_save_metrics fr env w)) = snapshots w"
      by (simp add: db_close_def db_rollback_def print_line_def SessionLocal_def)
  qed
  from tick_contained[OF e, of fr w] tr sn run_job_all[OF assms, of fr w n]
  show ?thesis by simp
qed

theorem tick_error_containment_witness:
  "list_all errors_only
     [\<lparr>sampled = Inr \<lparr>cpu = \<lparr>usage_percent = PyInt 10\<rparr>, memory = \<lparr>usage_percent = PyInt 10\<rparr>,
                       disk = \<lparr>usage_percent = PyInt 10\<rparr>, battery = None\<rparr>,
       snapshot_commit_fault = Some (Error ''StoreUnavailable''),
       evaluation_fault = None, clock_of = (\<lambda>k. 1)\<rparr>,
      \<lparr>sampled = Inl (Error ''SamplerUnavailable''),
       snapshot_commit_fault = None, evaluation_fault = None, clock_of = (\<lambda>k. 2)\<rparr>] \<and>
   fault_of
     \<lparr>sampled = Inr \<lparr>cpu = \<lparr>usage_percent = PyInt 10\<rparr>, memory = \<lparr>usage_percent = PyInt 10\<rparr>,
                       disk = \<lparr>usage_percent = PyInt 10\<rparr>, battery = None\<rparr>,
       snapshot_commit_fault = Some (Error ''StoreUnavailable''),
       evaluation_fault = None, clock_of = (\<lambda>k. 1)\<rparr> = Some (Error ''StoreUnavailable'') \<and>
   collect_and_save_metrics (\<lambda>x. [])
     \<lparr>sampled = Inr \<lparr>cpu = \<lparr>usage_percent = PyInt 10\<rparr>, memory = \<lparr>usage_percent = PyInt 10\<rparr>,
                       disk = \<lparr>usage_percent = PyInt 10\<rparr>, battery = None\<rparr>,
       snapshot_commit_fault = Some (Error ''StoreUnavailable''),
       evaluation_fault = None, clock_of = (\<lambda>k. 1)\<rparr>
     \<lparr>snapshots = [], alerts = [], pending = [], trace = []\<rparr> =
     (None, \<lparr>snapshots = [], alerts = [], pending = [],
             trace = [SessionOpened, Added, PrintedError (Error ''StoreUnavailable''), RolledBack,
                      SessionClosed]\<rparr>) \<and>
   fst (run_job (\<lambda>x. [])
     [\<lparr>sampled = Inr \<lparr>cpu = \<lparr>usage_percent = PyInt 10\<rparr>, memory = \<lparr>usage_percent = PyInt 10\<rparr>,
                       disk = \<lparr>usage_percent = PyInt 10\<rparr>, battery = None\<rparr>,
       snapshot_commit_fault = Some (Error ''StoreUnavailable''),
       evaluation_fault = None, clock_of = (\<lambda>k. 1)\<rparr>,
      \<lparr>sampled = Inl (Error ''SamplerUnavailable''),
       snapshot_commit_fault = None, evaluation_fault = None, clock_of = (\<lambda>k. 2)\<rparr>]
     \<lparr>snapshots = [], alerts = [], pending = [], trace = []\<rparr> 0) = None \<and>
   snd (snd (run_job (\<lambda>x. [])
     [\<lparr>sampled = Inr \<lparr>cpu = \<lparr>usage_percent = PyInt 10\<rparr>, memory = \<lparr>usage_percent = PyInt 10\<rparr>,
                       disk = \<lparr>usage_percent = PyInt 10\<rparr>, battery = None\<rparr>,
       snapshot_commit_fault = Some (Error ''StoreUnavailable''),
       evaluation_fault = None, clock_of = (\<lambda>k. 1)\<rparr>,
      \<lparr>sampled = Inl (Error ''SamplerUnavailable''),
       snapshot_commit_fault = None, evaluation_fault = None, clock_of = (\<lambda>k. 2)\<rparr>]
     \<lparr>snapshots = [], alerts = [], pending = [], trace = []\<rparr> 0)) = 2"
proof -
  let ?e1 = "\<lparr>sampled = Inr \<lparr>cpu = \<lparr>usage_percent = PyInt 10\<rparr>, memory = \<lparr>usage_percent = PyInt 10\<rparr>,
                       disk = \<lparr>usage_percent = PyInt 10\<rparr>, battery = None\<rparr>,
       snapshot_commit_fault = Some (Error ''StoreUnavailable''),
       evaluation_fault = None, clock_of = (\<lambda>k. 1)\<rparr>"
  let ?e2 = "\<lparr>sampled = Inl (Error ''SamplerUnavailable''),
       snapshot_commit_fault = None, evaluation_fault = None, clock_of = (\<lambda>k. 2)\<rparr>"
  let ?w = "\<lparr>snapshots = [], alerts = [], pending = [], trace = []\<rparr>"
  have h: "list_all errors_only [?e1, ?e2]" by (simp add: errors_only_def fault_of_def)
  have f: "fault_of ?e1 = Some (Error ''StoreUnavailable'')" by (simp add: fault_of_def)
  have t: "collect_and_save_metrics (\<lambda>x. []) ?e1 ?w =
     (None, \<lparr>snapshots = [], alerts = [], pending = [],
             trace = [SessionOpened, Added, PrintedError (Error ''StoreUnavailable''), RolledBack,
                      SessionClosed]\<rparr>)"
    by (simp add: collect_and_save_metrics_def try_block_def SessionLocal_def db_add_def
        db_commit_def db_rollback_def db_close_def print_line_def)
  from tick_error_containment[OF h, of "\<lambda>x. []" ?w 0]
  have "fst (run_job (\<lambda>x. []) [?e1, ?e2] ?w 0) = None"
    and "snd (snd (run_job (\<lambda>x. []) [?e1, ?e2] ?w 0)) = 2" by simp_all
  with h f t show ?thesis by blast
qed

end
